theory Spec2Isabelle
  imports Main "HOL-Library.AList" "HOL-Library.Sublist"
begin

section \<open>Python strings\<close>

text \<open>
  A Python \<open>str\<close> is a sequence of Unicode code points; it is modelled as a list of
  natural numbers, one per code point, so that \<open>len\<close>, \<open>strip\<close>, \<open>split\<close> and
  \<open>upper\<close> count what Python counts. \<open>lit\<close> turns an ASCII literal into its code
  points; text outside ASCII (the Russian messages of the handlers) is written as
  numerals.
\<close>

type_synonym pystr = "nat list"

definition lit :: "string \<Rightarrow> pystr" where
  "lit s = map of_char s"

text \<open>
  The code points for which \<open>str.isspace\<close> holds; \<open>str.strip()\<close> and
  \<open>str.split()\<close> without arguments use this class: U+0009..U+000D, U+001C..U+0020,
  U+0085, U+00A0, U+1680, U+2000..U+200A, U+2028, U+2029, U+202F, U+205F, U+3000.
\<close>

definition isspace :: "nat \<Rightarrow> bool" where
  "isspace c \<longleftrightarrow>
     (9 \<le> c \<and> c \<le> 13) \<or> (28 \<le> c \<and> c \<le> 32) \<or> c = 133 \<or> c = 160 \<or> c = 5760 \<or>
     (8192 \<le> c \<and> c \<le> 8202) \<or> c = 8232 \<or> c = 8233 \<or> c = 8239 \<or> c = 8287 \<or>
     c = 12288"

text \<open>\<open>s.strip()\<close>: leading and trailing whitespace removed.\<close>

definition py_strip :: "pystr \<Rightarrow> pystr" where
  "py_strip s = rev (dropWhile isspace (rev (dropWhile isspace s)))"

text \<open>
  \<open>s.split()\<close>: the maximal runs of non-whitespace, in order. \<open>split_ws s cur\<close> scans
  \<open>s\<close> with the token read so far in \<open>cur\<close>.
\<close>

fun split_ws :: "pystr \<Rightarrow> pystr \<Rightarrow> pystr list" where
  "split_ws [] cur = (if cur = [] then [] else [cur])"
| "split_ws (c # cs) cur =
     (if isspace c then (if cur = [] then split_ws cs [] else cur # split_ws cs [])
      else split_ws cs (cur @ [c]))"

definition py_split :: "pystr \<Rightarrow> pystr list" where
  "py_split s = split_ws s []"

text \<open>
  \<open>s.upper()\<close> maps every code point through Unicode's full uppercase mapping, which
  may give several code points. The mapping table belongs to the Python runtime and is
  the parameter \<open>up\<close>.
\<close>

definition py_upper :: "(nat \<Rightarrow> pystr) \<Rightarrow> pystr \<Rightarrow> pystr" where
  "py_upper up s = concat (map up s)"

text \<open>\<open>s.lower()\<close>, with the lowercase table \<open>lo\<close> of the runtime.\<close>

definition py_lower :: "(nat \<Rightarrow> pystr) \<Rightarrow> pystr \<Rightarrow> pystr" where
  "py_lower lo s = concat (map lo s)"


text \<open>
  What the development uses of the uppercase table: whitespace is uncased, and the
  image of any other code point is not empty and holds no whitespace.
\<close>

definition case_table_ok :: "(nat \<Rightarrow> pystr) \<Rightarrow> bool" where
  "case_table_ok up \<longleftrightarrow>
     (\<forall>c. if isspace c then up c = [c] else up c \<noteq> [] \<and> list_all (\<lambda>d. \<not> isspace d) (up c))"

text \<open>The table restricted to ASCII: \<open>a..z\<close> go to \<open>A..Z\<close>, the rest is unchanged.\<close>

definition ascii_upper :: "nat \<Rightarrow> pystr" where
  "ascii_upper c = (if 97 \<le> c \<and> c \<le> 122 then [c - 32] else [c])"

text \<open>\<open>str(n)\<close> for an integer.\<close>

fun str_nat :: "nat \<Rightarrow> pystr" where
  "str_nat n = (if n < 10 then [48 + n] else str_nat (n div 10) @ [48 + n mod 10])"

definition str_int :: "int \<Rightarrow> pystr" where
  "str_int i = (if i < 0 then 45 # str_nat (nat (- i)) else str_nat (nat i))"

text \<open>\<open>sub in s\<close> for strings.\<close>

fun contains :: "pystr \<Rightarrow> pystr \<Rightarrow> bool" where
  "contains sub [] = (sub = [])"
| "contains sub (c # cs) = (prefix sub (c # cs) \<or> contains sub cs)"

text \<open>
  \<open>s.split(sep)\<close> for a separator \<open>sep\<close> that is not empty (Python raises
  \<open>ValueError\<close> for an empty one; the handlers pass constants). \<open>cur\<close> is the piece
  read so far.
\<close>

function split_on :: "pystr \<Rightarrow> pystr \<Rightarrow> pystr \<Rightarrow> pystr list" where
  "split_on sep cur [] = [cur]"
| "split_on sep cur (c # cs) =
     (if sep \<noteq> [] \<and> prefix sep (c # cs)
      then cur # split_on sep [] (drop (length sep) (c # cs))
      else split_on sep (cur @ [c]) cs)"
  by pat_completeness auto
termination
  by (relation "measure (\<lambda>(sep, cur, s). length s)") (auto simp: neq_Nil_conv)

section \<open>Exceptions and values\<close>

text \<open>
  The exceptions the handlers raise or catch. Each carries the text \<open>str(e)\<close> gives;
  \<open>HTTPException\<close> carries its status code and detail.
\<close>

datatype exn =
    HTTPException nat pystr
  | SQLAlchemyError pystr
  | IndexError pystr
  | KeyError pystr

fun str_exn :: "exn \<Rightarrow> pystr" where
  "str_exn (HTTPException status detail) = str_nat status @ lit '': '' @ detail"
| "str_exn (SQLAlchemyError m) = m"
| "str_exn (IndexError m) = m"
| "str_exn (KeyError m) = m"

text \<open>\<open>xs[i]\<close> on a list or row: \<open>IndexError\<close> out of range.\<close>

definition py_index :: "'a list \<Rightarrow> nat \<Rightarrow> exn + 'a" where
  "py_index xs i =
     (if i < length xs then Inr (xs ! i) else Inl (IndexError (lit ''list index out of range'')))"

text \<open>
  Values that travel between the forms, the database driver and the templates. Dates
  (\<open>datetime.date\<close> and its subclass \<open>datetime.datetime\<close>), \<open>decimal.Decimal\<close> and
  \<open>float\<close> are opaque: their arithmetic plays no role, only which branch of an
  \<open>isinstance\<close> test they take.
\<close>

typedecl pydate
typedecl pydecimal
typedecl pyfloat

datatype pyval =
    VNone
  | VStr pystr
  | VInt int
  | VBool bool
  | VFloat pyfloat
  | VDate pydate
  | VDecimal pydecimal

text \<open>
  The functions of the Python runtime that the handlers call and that are not code of
  this repository. A parser returns \<open>None\<close> where Python raises \<open>ValueError\<close>.
\<close>

record pylib =
  to_upper :: "nat \<Rightarrow> pystr"
  to_lower :: "nat \<Rightarrow> pystr"
  isoformat :: "pydate \<Rightarrow> pystr"
  float_of_decimal :: "pydecimal \<Rightarrow> pyfloat"
  date_fromisoformat :: "pystr \<Rightarrow> pydate option"
  datetime_fromisoformat :: "pystr \<Rightarrow> pydate option"
  int_of_str :: "pystr \<Rightarrow> int option"
  float_of_str :: "pystr \<Rightarrow> pyfloat option"

text \<open>A dict in insertion order: assignment is \<open>AList.update\<close>, \<open>del\<close> is \<open>AList.delete\<close>.\<close>

type_synonym 'v pydict = "(pystr \<times> 'v) list"



section \<open>The database session\<close>

text \<open>
  The relational engine is outside the repository. \<open>run\<close> executes one statement with
  its bound parameters on the state the open transaction sees: it returns the result
  and the new state, or the text of the \<open>SQLAlchemyError\<close> it raises. \<open>commit_error\<close>
  says whether committing that state raises.
\<close>

type_synonym params = "pyval pydict"

text \<open>
  The result of a statement. \<open>no_rows\<close> is \<open>Some m\<close> when the statement returned no
  rows: the result is then closed, and \<open>keys()\<close> and \<open>fetchall()\<close> raise
  \<open>ResourceClosedError\<close>, a \<open>SQLAlchemyError\<close>, with the text \<open>m\<close>.
\<close>

record result =
  keys :: "pystr list"
  rows :: "pyval list list"
  rowcount :: int
  no_rows :: "pystr option"

record 's engine =
  run :: "'s \<Rightarrow> pystr \<Rightarrow> params \<Rightarrow> pystr + (result \<times> 's)"
  commit_error :: "'s \<Rightarrow> pystr option"

text \<open>
  What a session did, in order. The flag of \<open>EvExecute\<close> and \<open>EvCommit\<close> is
  \<open>True\<close> when the call returned and \<open>False\<close> when it raised.
\<close>

datatype event =
    EvExecute pystr params bool
  | EvCommit bool
  | EvRollback
  | EvClose

text \<open>
  Where the database raised a \<open>SQLAlchemyError\<close>: in \<open>db.execute\<close>, in
  \<open>db.commit\<close>, in reading a result (\<open>keys()\<close>, \<open>fetchall()\<close>), or in reading the
  catalogue (\<open>get_table_names\<close>, \<open>metadata.reflect\<close>, \<open>get_foreign_keys\<close>).
\<close>

datatype site = AtExecute | AtCommit | AtResult | AtCatalogue

text \<open>
  A session (\<open>SessionLocal()\<close>, \<open>autocommit=False\<close>): \<open>committed\<close> is the durable state
  of the database, \<open>working\<close> the state inside the open transaction. Two logs of the
  request travel with it: \<open>reads\<close> counts the reads of the catalogue made so far, so
  that each read can return or raise on its own, and \<open>errors\<close> lists where the database
  has raised.
\<close>

record 's session =
  committed :: 's
  working :: 's
  events :: "event list"
  closed :: bool
  reads :: nat
  errors :: "site list"

definition SessionLocal :: "'s \<Rightarrow> 's session" where
  "SessionLocal s =
     \<lparr>committed = s, working = s, events = [], closed = False, reads = 0, errors = []\<rparr>"

definition db_execute ::
  "'s engine \<Rightarrow> 's session \<Rightarrow> pystr \<Rightarrow> params \<Rightarrow> (exn + result) \<times> 's session" where
  "db_execute eng db stmt ps =
     (case run eng (working db) stmt ps of
        Inl e \<Rightarrow>
          (Inl (SQLAlchemyError e),
           db\<lparr>events := events db @ [EvExecute stmt ps False],
              errors := errors db @ [AtExecute]\<rparr>)
      | Inr (r, s') \<Rightarrow>
          (Inr r, db\<lparr>working := s', events := events db @ [EvExecute stmt ps True]\<rparr>))"

definition db_commit :: "'s engine \<Rightarrow> 's session \<Rightarrow> (exn + unit) \<times> 's session" where
  "db_commit eng db =
     (case commit_error eng (working db) of
        Some e \<Rightarrow>
          (Inl (SQLAlchemyError e),
           db\<lparr>events := events db @ [EvCommit False], errors := errors db @ [AtCommit]\<rparr>)
      | None \<Rightarrow> (Inr (), db\<lparr>committed := working db, events := events db @ [EvCommit True]\<rparr>))"

text \<open>
  The two statements of every modifying branch: \<open>result = db.execute(text(stmt), ps)\<close>
  and then \<open>db.commit()\<close>.
\<close>

definition execute_and_commit ::
  "'s engine \<Rightarrow> 's session \<Rightarrow> pystr \<Rightarrow> params \<Rightarrow> (exn + result) \<times> 's session" where
  "execute_and_commit eng db stmt ps =
     (case db_execute eng db stmt ps of
        (Inl e, db') \<Rightarrow> (Inl e, db')
      | (Inr res, db') \<Rightarrow>
          (case db_commit eng db' of
             (Inl e, db'') \<Rightarrow> (Inl e, db'')
           | (Inr u, db'') \<Rightarrow> (Inr res, db'')))"

definition db_rollback :: "'s session \<Rightarrow> 's session" where
  "db_rollback db = db\<lparr>working := committed db, events := events db @ [EvRollback]\<rparr>"

text \<open>\<open>Session.close()\<close> ends the open transaction without committing it.\<close>

definition db_close :: "'s session \<Rightarrow> 's session" where
  "db_close db = db\<lparr>working := committed db, events := events db @ [EvClose], closed := True\<rparr>"

text \<open>\<open>result.keys()\<close> and \<open>result.fetchall()\<close>.\<close>

definition result_keys :: "result \<Rightarrow> 's session \<Rightarrow> (exn + pystr list) \<times> 's session" where
  "result_keys res db =
     (case no_rows res of
        Some m \<Rightarrow> (Inl (SQLAlchemyError m), db\<lparr>errors := errors db @ [AtResult]\<rparr>)
      | None \<Rightarrow> (Inr (keys res), db))"

definition result_fetchall ::
  "result \<Rightarrow> 's session \<Rightarrow> (exn + pyval list list) \<times> 's session" where
  "result_fetchall res db =
     (case no_rows res of
        Some m \<Rightarrow> (Inl (SQLAlchemyError m), db\<lparr>errors := errors db @ [AtResult]\<rparr>)
      | None \<Rightarrow> (Inr (rows res), db))"

text \<open>What a session did, and where the database raised, between two of its states.\<close>

definition new_events :: "'s session \<Rightarrow> 's session \<Rightarrow> event list" where
  "new_events db db' = drop (length (events db)) (events db')"

definition new_errors :: "'s session \<Rightarrow> 's session \<Rightarrow> site list" where
  "new_errors db db' = drop (length (errors db)) (errors db')"

section \<open>The session provider: \<open>get_db\<close>\<close>

text \<open>
  \<open>DatabaseManager.get_db\<close> is a context manager: it opens a session, yields it, and
  closes it in a \<open>finally\<close> clause. The code that runs while the generator is
  suspended at \<open>yield\<close> is the parameter \<open>body\<close>; it returns its result or the
  exception it raises, and the session as it left it. \<open>s\<close> is the state of the
  database when the session is opened.
\<close>

definition DatabaseManager_get_db ::
  "'s \<Rightarrow> ('s session \<Rightarrow> (exn + 'a) \<times> 's session) \<Rightarrow> (exn + 'a) \<times> 's session" where
  "DatabaseManager_get_db s body =
     (let db = SessionLocal s in
      case body db of
        (Inl e, db') \<Rightarrow> (Inl e, db_close db')
      | (Inr r, db') \<Rightarrow> (Inr r, db_close db'))"

text \<open>
  The module-level \<open>get_db\<close>, the dependency of every handler:
  \<open>with db_manager.get_db() as db: yield db\<close>.
\<close>

definition get_db ::
  "'s \<Rightarrow> ('s session \<Rightarrow> (exn + 'a) \<times> 's session) \<Rightarrow> (exn + 'a) \<times> 's session" where
  "get_db s body = DatabaseManager_get_db s (\<lambda>db. body db)"

section \<open>Schema inspection\<close>

text \<open>
  What SQLAlchemy's inspector and reflection report about the database:
  \<open>table_names\<close> is what \<open>inspector.get_table_names()\<close> returns, \<open>reflected\<close> is
  \<open>metadata.tables\<close> after \<open>metadata.reflect(bind=engine)\<close>, and \<open>foreign_keys\<close>
  is what \<open>inspector.get_foreign_keys(table_name)\<close> returns. Each of these calls
  reads the catalogue of the database and raises a \<open>SQLAlchemyError\<close> when the
  database cannot be read: \<open>read_error n\<close> is \<open>Some m\<close> when the read number \<open>n\<close> of
  the request (counted from 0) raises, with the text \<open>m\<close>.
\<close>

datatype coltype = Date | DateTime | Integer | Numeric | OtherType

record column =
  name :: pystr
  type_str :: pystr
  type_kind :: coltype
  nullable :: bool
  has_default :: bool
  primary_key :: bool

record table =
  table_columns :: "column list"
  primary_key_columns :: "column list"

record fkey =
  constrained_columns :: "pystr list"
  referred_table :: pystr
  referred_columns :: "pystr list"

record schema_env =
  table_names :: "pystr list"
  reflected :: "pystr \<Rightarrow> table option"
  foreign_keys :: "pystr \<Rightarrow> fkey list"
  read_error :: "nat \<Rightarrow> pystr option"

text \<open>One read of the catalogue.\<close>

definition catalogue_read :: "schema_env \<Rightarrow> 's session \<Rightarrow> (exn + unit) \<times> 's session" where
  "catalogue_read env db =
     (case read_error env (reads db) of
        Some m \<Rightarrow>
          (Inl (SQLAlchemyError m),
           db\<lparr>reads := Suc (reads db), errors := errors db @ [AtCatalogue]\<rparr>)
      | None \<Rightarrow> (Inr (), db\<lparr>reads := Suc (reads db)\<rparr>))"

text \<open>\<open>get_table_names()\<close> of \<open>database_manager.py\<close>.\<close>

definition get_table_names :: "schema_env \<Rightarrow> 's session \<Rightarrow> (exn + pystr list) \<times> 's session" where
  "get_table_names env db =
     (case catalogue_read env db of
        (Inl e, db') \<Rightarrow> (Inl e, db')
      | (Inr u, db') \<Rightarrow> (Inr (table_names env), db'))"

text \<open>\<open>metadata = MetaData(); metadata.reflect(bind=engine)\<close>; the value is \<open>metadata.tables\<close>.\<close>

definition reflect ::
  "schema_env \<Rightarrow> 's session \<Rightarrow> (exn + (pystr \<Rightarrow> table option)) \<times> 's session" where
  "reflect env db =
     (case catalogue_read env db of
        (Inl e, db') \<Rightarrow> (Inl e, db')
      | (Inr u, db') \<Rightarrow> (Inr (reflected env), db'))"

text \<open>\<open>inspect(engine).get_foreign_keys(table_name)\<close>.\<close>

definition get_foreign_keys ::
  "schema_env \<Rightarrow> pystr \<Rightarrow> 's session \<Rightarrow> (exn + fkey list) \<times> 's session" where
  "get_foreign_keys env table_name db =
     (case catalogue_read env db of
        (Inl e, db') \<Rightarrow> (Inl e, db')
      | (Inr u, db') \<Rightarrow> (Inr (foreign_keys env table_name), db'))"

section \<open>Responses\<close>

text \<open>
  Every page is the template \<open>view.html\<close> rendered with a context; the records hold
  the context's entries (the \<open>request\<close> entry, which the handlers only pass on, is left
  out). A redirect holds its URL and status code.
\<close>

record page =
  tables :: "pystr list"
  columns :: "pystr list"
  data :: "pyval pydict list"

record view_page = page +
  current_table :: "pystr option"
  primary_keys :: "pystr list"
  required_columns :: "pystr list"
  message :: "pystr option"
  message_type :: "pystr option"

record query_page = page +
  current_query :: pystr


record sql_page = query_page +
  sql_query :: pystr
  sql_error :: "pystr option"
  sql_success :: "pystr option"

section \<open>Reading rows\<close>

text \<open>
  The conversion both \<open>get_table_data\<close> and \<open>execute_custom_query\<close> apply to a
  cell: dates become their ISO text, decimals become floats.
\<close>

definition jsonable :: "pylib \<Rightarrow> pyval \<Rightarrow> pyval" where
  "jsonable L v =
     (case v of
        VDate d \<Rightarrow> VStr (isoformat L d)
      | VDecimal q \<Rightarrow> VFloat (float_of_decimal L q)
      | _ \<Rightarrow> v)"

text \<open>The inner loop \<open>for i, column in enumerate(columns)\<close> over one row.\<close>

fun row_to_dict ::
  "pylib \<Rightarrow> (nat \<times> pystr) list \<Rightarrow> pyval list \<Rightarrow> pyval pydict \<Rightarrow> exn + pyval pydict" where
  "row_to_dict L [] row row_dict = Inr row_dict"
| "row_to_dict L ((i, column) # rest) row row_dict =
     (case py_index row i of
        Inl e \<Rightarrow> Inl e
      | Inr v \<Rightarrow> row_to_dict L rest row (AList.update column (jsonable L v) row_dict))"

text \<open>The outer loop \<open>for row in rows\<close>.\<close>

fun rows_to_data :: "pylib \<Rightarrow> pystr list \<Rightarrow> pyval list list \<Rightarrow> exn + pyval pydict list" where
  "rows_to_data L cols [] = Inr []"
| "rows_to_data L cols (row # rest) =
     (case row_to_dict L (enumerate 0 cols) row [] of
        Inl e \<Rightarrow> Inl e
      | Inr row_dict \<Rightarrow>
          (case rows_to_data L cols rest of
             Inl e \<Rightarrow> Inl e
           | Inr ds \<Rightarrow> Inr (row_dict # ds)))"

text \<open>
  \<open>execute_custom_query\<close>: the statement is executed with no bound parameter, then
  \<open>result.keys()\<close> and \<open>result.fetchall()\<close> are read, then the rows become dicts.
\<close>

definition execute_custom_query ::
  "'s engine \<Rightarrow> pylib \<Rightarrow> pystr \<Rightarrow> 's session \<Rightarrow>
     (exn + pystr list \<times> pyval pydict list) \<times> 's session" where
  "execute_custom_query eng L query db =
     (case db_execute eng db query [] of
        (Inl e, db1) \<Rightarrow> (Inl e, db1)
      | (Inr res, db1) \<Rightarrow>
          (case result_keys res db1 of
             (Inl e, db2) \<Rightarrow> (Inl e, db2)
           | (Inr cols, db2) \<Rightarrow>
               (case result_fetchall res db2 of
                  (Inl e, db3) \<Rightarrow> (Inl e, db3)
                | (Inr rws, db3) \<Rightarrow>
                    (case rows_to_data L cols rws of
                       Inl e \<Rightarrow> (Inl e, db3)
                     | Inr ds \<Rightarrow> (Inr (cols, ds), db3)))))"

text \<open>\<open>get_table_data\<close> puts the table name between double quotes into the statement.\<close>

definition get_table_data ::
  "'s engine \<Rightarrow> pylib \<Rightarrow> pystr \<Rightarrow> 's session \<Rightarrow>
     (exn + pystr list \<times> pyval pydict list) \<times> 's session" where
  "get_table_data eng L table_name db =
     execute_custom_query eng L (lit ''SELECT * FROM '' @ [34] @ table_name @ [34]) db"

section \<open>The SQL editor: \<open>execute_sql\<close>\<close>

text \<open>
  The page every branch of \<open>execute_sql\<close> returns:
  \<open>templates.TemplateResponse("view.html", {...})\<close>, whose entry \<open>tables\<close> is read
  with \<open>get_table_names()\<close> while the context is built.
\<close>

definition sql_template ::
  "schema_env \<Rightarrow> pystr list \<Rightarrow> pyval pydict list \<Rightarrow> pystr \<Rightarrow> pystr option \<Rightarrow> pystr option \<Rightarrow>
     's session \<Rightarrow> (exn + sql_page) \<times> 's session" where
  "sql_template env cols ds q err ok db =
     (case get_table_names env db of
        (Inl e, db') \<Rightarrow> (Inl e, db')
      | (Inr ts, db') \<Rightarrow>
          (Inr \<lparr>tables = ts, columns = cols, data = ds, current_query = lit ''custom_sql'',
                sql_query = q, sql_error = err, sql_success = ok\<rparr>, db'))"

text \<open>The messages of \<open>execute_sql\<close> (lines 463, 472, 490, 513, 528, 538 and 561).\<close>

definition msg_empty_query :: pystr where
  "msg_empty_query =
     [1047, 1072, 1087, 1088, 1086, 1089] @ lit '' '' @ [1085, 1077] @ lit '' '' @
     [1084, 1086, 1078, 1077, 1090] @ lit '' '' @ [1073, 1099, 1090, 1100] @ lit '' '' @
     [1087, 1091, 1089, 1090, 1099, 1084]"

definition msg_success :: pystr where
  "msg_success =
     [1047, 1072, 1087, 1088, 1086, 1089] @ lit '' '' @
     [1074, 1099, 1087, 1086, 1083, 1085, 1077, 1085] @ lit '' '' @
     [1091, 1089, 1087, 1077, 1096, 1085, 1086]"

definition msg_found :: "nat \<Rightarrow> pystr" where
  "msg_found n =
     msg_success @ lit ''. '' @ [1053, 1072, 1081, 1076, 1077, 1085, 1086] @ lit '' '' @
     [1079, 1072, 1087, 1080, 1089, 1077, 1081] @ lit '': '' @ str_nat n"

definition msg_affected :: "int \<Rightarrow> pystr" where
  "msg_affected n =
     msg_success @ lit ''. '' @ [1047, 1072, 1090, 1088, 1086, 1085, 1091, 1090, 1086] @
     lit '' '' @ [1089, 1090, 1088, 1086, 1082] @ lit '': '' @ str_int n"

definition msg_restricted :: "pystr \<Rightarrow> pystr" where
  "msg_restricted query_type =
     [1042, 1099, 1087, 1086, 1083, 1085, 1077, 1085, 1080, 1077] @ lit '' '' @
     [1079, 1072, 1087, 1088, 1086, 1089, 1086, 1074] @ lit '' '' @
     [1090, 1080, 1087, 1072] @ lit '' '' @ query_type @ lit '' '' @
     [1086, 1075, 1088, 1072, 1085, 1080, 1095, 1077, 1085, 1086] @ lit '' '' @
     [1080, 1079] @ lit '' '' @
     [1089, 1086, 1086, 1073, 1088, 1072, 1078, 1077, 1085, 1080, 1081] @ lit '' '' @
     [1073, 1077, 1079, 1086, 1087, 1072, 1089, 1085, 1086, 1089, 1090, 1080]"

definition msg_unexpected :: "pystr \<Rightarrow> pystr" where
  "msg_unexpected e =
     [1053, 1077, 1086, 1078, 1080, 1076, 1072, 1085, 1085, 1072, 1103] @ lit '' '' @
     [1086, 1096, 1080, 1073, 1082, 1072] @ lit '': '' @ e"

definition dangerous_keywords :: "pystr list" where
  "dangerous_keywords =
     [lit ''DROP'', lit ''CREATE'', lit ''ALTER'', lit ''TRUNCATE'', lit ''GRANT'',
      lit ''REVOKE'']"

text \<open>
  The body of the \<open>try\<close> block; \<open>query\<close> is the stripped \<open>sql_query\<close>. The result is the
  page returned or the exception raised, with the session as the block left it.
\<close>

definition execute_sql_try ::
  "schema_env \<Rightarrow> 's engine \<Rightarrow> pylib \<Rightarrow> pystr \<Rightarrow> 's session \<Rightarrow> (exn + sql_page) \<times> 's session"
  where
  "execute_sql_try env eng L query db =
     (if query = [] then sql_template env [] [] query (Some msg_empty_query) None db
      else
        (case py_index (py_split (py_strip (py_upper (to_upper L) query))) 0 of
           Inl e \<Rightarrow> (Inl e, db)
         | Inr query_type \<Rightarrow>
             if query_type = lit ''SELECT'' then
               (case execute_custom_query eng L query db of
                  (Inl e, db') \<Rightarrow> (Inl e, db')
                | (Inr (cols, ds), db') \<Rightarrow>
                    sql_template env cols ds query None (Some (msg_found (length ds))) db')
             else if query_type \<in> set [lit ''INSERT'', lit ''UPDATE'', lit ''DELETE''] then
               (case execute_and_commit eng db query [] of
                  (Inl e, db') \<Rightarrow> (Inl e, db')
                | (Inr res, db') \<Rightarrow>
                    sql_template env [] [] query None (Some (msg_affected (rowcount res))) db')
             else if query_type \<in> set dangerous_keywords then
               sql_template env [] [] query (Some (msg_restricted query_type)) None db
             else
               (case execute_and_commit eng db query [] of
                  (Inl e, db') \<Rightarrow> (Inl e, db')
                | (Inr res, db') \<Rightarrow>
                    sql_template env [] [] query None (Some msg_success) db')))"

text \<open>
  The text shown for a \<open>SQLAlchemyError\<close>: the first line of \<open>str(e)\<close>, and what
  follows \<open>DETAIL:\<close> up to the end of its line when the text has one.
\<close>

definition sql_error_message :: "pystr \<Rightarrow> exn + pystr" where
  "sql_error_message e =
     (case py_index (split_on [10] [] e) 0 of
        Inl x \<Rightarrow> Inl x
      | Inr error_message \<Rightarrow>
          if contains (lit ''DETAIL:'') e then
            (case py_index (split_on (lit ''DETAIL:'') [] e) 1 of
               Inl x \<Rightarrow> Inl x
             | Inr after \<Rightarrow>
                 (case py_index (split_on [10] [] after) 0 of
                    Inl x \<Rightarrow> Inl x
                  | Inr detail_line \<Rightarrow>
                      Inr (error_message @ lit '' '' @ [1044, 1077, 1090, 1072, 1083, 1080] @
                           lit '': '' @ py_strip detail_line)))
          else Inr error_message)"

text \<open>
  The handler: the submitted \<open>sql_query\<close> is stripped and the \<open>try\<close> block runs.
  \<open>except SQLAlchemyError\<close> rolls the session back and returns the error page;
  \<open>except Exception\<close> returns the error page without a rollback. Both pages are
  built inside the \<open>except\<close> clause, so an exception of their \<open>get_table_names()\<close>
  leaves the handler.
\<close>

definition execute_sql ::
  "schema_env \<Rightarrow> 's engine \<Rightarrow> pylib \<Rightarrow> pystr \<Rightarrow> 's session \<Rightarrow> (exn + sql_page) \<times> 's session"
  where
  "execute_sql env eng L sql_query_form db =
     (let query = py_strip sql_query_form in
      case execute_sql_try env eng L query db of
        (Inr pg, db') \<Rightarrow> (Inr pg, db')
      | (Inl (SQLAlchemyError e), db') \<Rightarrow>
          (let db'' = db_rollback db' in
           case sql_error_message e of
             Inl x \<Rightarrow> (Inl x, db'')
           | Inr error_message \<Rightarrow> sql_template env [] [] query (Some error_message) None db'')
      | (Inl e, db') \<Rightarrow>
          sql_template env [] [] query (Some (msg_unexpected (str_exn e))) None db')"

section \<open>Browsing a table: \<open>/view\<close>\<close>

definition msg_table_not_found :: "pystr \<Rightarrow> pystr" where
  "msg_table_not_found table_name =
     [1058, 1072, 1073, 1083, 1080, 1094, 1072] @ lit '' '' @ table_name @ lit '' '' @
     [1085, 1077] @ lit '' '' @ [1085, 1072, 1081, 1076, 1077, 1085, 1072]"

text \<open>
  \<open>get_table_info\<close> reflects the schema and returns the dict with the entries
  \<open>primary_keys\<close>, \<open>required_columns\<close> and \<open>columns\<close>, here a triple in that order.
\<close>

definition get_table_info ::
  "schema_env \<Rightarrow> pystr \<Rightarrow> 's session \<Rightarrow>
     (exn + pystr list \<times> pystr list \<times> pystr list) \<times> 's session" where
  "get_table_info env table_name db =
     (case reflect env db of
        (Inl e, db') \<Rightarrow> (Inl e, db')
      | (Inr metadata_tables, db') \<Rightarrow>
          (case metadata_tables table_name of
             None \<Rightarrow> (Inl (HTTPException 404 (msg_table_not_found table_name)), db')
           | Some tbl \<Rightarrow>
               (Inr (map name (primary_key_columns tbl),
                     map name (filter (\<lambda>c. \<not> nullable c \<and> \<not> has_default c)
                                 (table_columns tbl)),
                     map name (table_columns tbl)), db')))"

definition view_template ::
  "pystr list \<Rightarrow> pystr option \<Rightarrow> pystr list \<Rightarrow> pyval pydict list \<Rightarrow> pystr list \<Rightarrow>
     pystr list \<Rightarrow> pystr option \<Rightarrow> pystr option \<Rightarrow> view_page" where
  "view_template ts table_name cols ds pks req msg msg_type =
     \<lparr>tables = ts, columns = cols, data = ds, current_table = table_name,
      primary_keys = pks, required_columns = req, message = msg, message_type = msg_type\<rparr>"

text \<open>
  The handler of \<open>/view\<close>. \<open>table_name\<close>, \<open>message\<close> and \<open>message_type\<close> are the
  optional query parameters; a string is true when it is not empty. The first statement
  reads the table list. There is no \<open>try\<close>: an exception leaves the handler.
\<close>

definition show_tables ::
  "schema_env \<Rightarrow> 's engine \<Rightarrow> pylib \<Rightarrow> pystr option \<Rightarrow> pystr option \<Rightarrow> pystr option \<Rightarrow>
     's session \<Rightarrow> (exn + view_page) \<times> 's session" where
  "show_tables env eng L table_name msg msg_type db =
     (case get_table_names env db of
        (Inl e, db1) \<Rightarrow> (Inl e, db1)
      | (Inr ts, db1) \<Rightarrow>
          (case table_name of
             None \<Rightarrow> (Inr (view_template ts table_name [] [] [] [] msg msg_type), db1)
           | Some t \<Rightarrow>
               if t \<noteq> [] \<and> t \<in> set ts then
                 (case get_table_data eng L t db1 of
                    (Inl e, db2) \<Rightarrow> (Inl e, db2)
                  | (Inr (cols, ds), db2) \<Rightarrow>
                      if t \<noteq> [] then
                        (case get_table_info env t db2 of
                           (Inl e, db3) \<Rightarrow> (Inl e, db3)
                         | (Inr (pks, req, all_cols), db3) \<Rightarrow>
                             (Inr (view_template ts table_name cols ds pks req msg msg_type),
                              db3))
                      else (Inr (view_template ts table_name cols ds [] [] msg msg_type), db2))
               else (Inr (view_template ts table_name [] [] [] [] msg msg_type), db1)))"

section \<open>The reports: \<open>/query1\<close> to \<open>/query5\<close>\<close>

text \<open>
  What a handler receives of the HTTP request besides the parameters FastAPI extracts
  for it: the fields of the submitted form, in order (\<open>await request.form()\<close>).
\<close>

record request =
  form_data :: "(pystr \<times> pystr) list"


















section \<open>Adding, editing and deleting a record\<close>












subsection \<open>\<open>add_record\<close>\<close>









subsection \<open>\<open>edit_record\<close>\<close>









subsection \<open>\<open>delete_record\<close>\<close>






section \<open>The schema endpoint: \<open>get_table_schema\<close>\<close>

text \<open>The JSON the endpoint returns: the entries of each dict, as records.\<close>

record fk_info =
  target_table :: pystr
  target_column :: pystr
  target_values :: "pyval list"

record column_info =
  info_name :: pystr
  info_type :: pystr
  input_type :: pystr
  is_primary_key :: bool
  is_nullable :: bool
  info_has_default :: bool
  is_foreign_key :: bool
  foreign_key_info :: "fk_info option"

record table_schema =
  schema_table_name :: pystr
  schema_primary_keys :: "pystr list"
  schema_required_columns :: "pystr list"
  schema_columns :: "column_info list"

text \<open>The \<open>if\<close>/\<open>elif\<close> chain on \<open>column_type.lower()\<close>.\<close>

definition input_type_of :: "pylib \<Rightarrow> pystr \<Rightarrow> pystr" where
  "input_type_of L column_type =
     (if contains (lit ''int'') (py_lower (to_lower L) column_type) then lit ''number''
      else if contains (lit ''date'') (py_lower (to_lower L) column_type) then lit ''date''
      else if contains (lit ''time'') (py_lower (to_lower L) column_type) then lit ''time''
      else if contains (lit ''numeric'') (py_lower (to_lower L) column_type) then lit ''number''
      else lit ''text'')"

text \<open>\<open>[row[0] for row in result.fetchall()]\<close>.\<close>

fun first_cells :: "pyval list list \<Rightarrow> exn + pyval list" where
  "first_cells [] = Inr []"
| "first_cells (row # rest) =
     (case py_index row 0 of
        Inl e \<Rightarrow> Inl e
      | Inr v \<Rightarrow> (case first_cells rest of Inl e \<Rightarrow> Inl e | Inr vs \<Rightarrow> Inr (v # vs)))"

definition distinct_statement :: "pystr \<Rightarrow> pystr \<Rightarrow> pystr" where
  "distinct_statement target_col target_tbl =
     lit ''SELECT DISTINCT '' @ [34] @ target_col @ [34] @ lit '' FROM '' @ [34] @ target_tbl @
     [34]"

text \<open>
  The loop \<open>for fk in foreign_keys\<close> for one column: the first foreign key that
  constrains the column is looked up in the database and ends the loop. The result is
  \<open>is_foreign_key\<close> and \<open>foreign_key_info\<close>.
\<close>

fun find_foreign_key ::
  "'s engine \<Rightarrow> pystr \<Rightarrow> fkey list \<Rightarrow> 's session \<Rightarrow> (exn + bool \<times> fk_info option) \<times> 's session"
  where
  "find_foreign_key eng column_name [] db = (Inr (False, None), db)"
| "find_foreign_key eng column_name (fk # rest) db =
     (if column_name \<in> set (constrained_columns fk) then
        (case py_index (referred_columns fk) 0 of
           Inl e \<Rightarrow> (Inl e, db)
         | Inr target_col \<Rightarrow>
             (case db_execute eng db (distinct_statement target_col (referred_table fk)) [] of
                (Inl e, db1) \<Rightarrow> (Inl e, db1)
              | (Inr res, db1) \<Rightarrow>
                  (case result_fetchall res db1 of
                     (Inl e, db2) \<Rightarrow> (Inl e, db2)
                   | (Inr rws, db2) \<Rightarrow>
                       (case first_cells rws of
                          Inl e \<Rightarrow> (Inl e, db2)
                        | Inr vs \<Rightarrow>
                            (Inr (True, Some \<lparr>target_table = referred_table fk,
                                              target_column = target_col,
                                              target_values = vs\<rparr>), db2)))))
      else find_foreign_key eng column_name rest db)"

text \<open>The loop \<open>for column in table.columns\<close>.\<close>

fun columns_info ::
  "'s engine \<Rightarrow> pylib \<Rightarrow> fkey list \<Rightarrow> column list \<Rightarrow> 's session \<Rightarrow>
     (exn + column_info list) \<times> 's session" where
  "columns_info eng L fks [] db = (Inr [], db)"
| "columns_info eng L fks (col # rest) db =
     (case find_foreign_key eng (name col) fks db of
        (Inl e, db') \<Rightarrow> (Inl e, db')
      | (Inr (is_fk, info), db') \<Rightarrow>
          (case columns_info eng L fks rest db' of
             (Inl e, db'') \<Rightarrow> (Inl e, db'')
           | (Inr infos, db'') \<Rightarrow>
               (Inr (\<lparr>info_name = name col, info_type = type_str col,
                       input_type = input_type_of L (type_str col),
                       is_primary_key = primary_key col, is_nullable = nullable col,
                       info_has_default = has_default col, is_foreign_key = is_fk,
                       foreign_key_info = info\<rparr> # infos), db'')))"

definition get_table_schema_try ::
  "schema_env \<Rightarrow> 's engine \<Rightarrow> pylib \<Rightarrow> pystr \<Rightarrow> 's session \<Rightarrow>
     (exn + table_schema) \<times> 's session" where
  "get_table_schema_try env eng L table_name db =
     (case get_table_names env db of
        (Inl e, db1) \<Rightarrow> (Inl e, db1)
      | (Inr ts, db1) \<Rightarrow>
          if table_name \<notin> set ts then
            (Inl (HTTPException 404 (msg_table_not_found table_name)), db1)
          else
            (case get_table_info env table_name db1 of
               (Inl e, db2) \<Rightarrow> (Inl e, db2)
             | (Inr (pks, req, all_cols), db2) \<Rightarrow>
                 (case reflect env db2 of
                    (Inl e, db3) \<Rightarrow> (Inl e, db3)
                  | (Inr metadata_tables, db3) \<Rightarrow>
                      (case metadata_tables table_name of
                         None \<Rightarrow>
                           (Inl (HTTPException 404 (msg_table_not_found table_name)), db3)
                       | Some tbl \<Rightarrow>
                           (case get_foreign_keys env table_name db3 of
                              (Inl e, db4) \<Rightarrow> (Inl e, db4)
                            | (Inr fks, db4) \<Rightarrow>
                                (case columns_info eng L fks (table_columns tbl) db4 of
                                   (Inl e, db5) \<Rightarrow> (Inl e, db5)
                                 | (Inr infos, db5) \<Rightarrow>
                                     (Inr \<lparr>schema_table_name = table_name,
                                           schema_primary_keys = pks,
                                           schema_required_columns = req,
                                           schema_columns = infos\<rparr>, db5)))))))"

text \<open>
  The handler: a \<open>SQLAlchemyError\<close> becomes an \<open>HTTPException\<close> with status 500;
  any other exception, the 404 included, leaves the handler as it is.
\<close>

definition get_table_schema ::
  "schema_env \<Rightarrow> 's engine \<Rightarrow> pylib \<Rightarrow> pystr \<Rightarrow> 's session \<Rightarrow>
     (exn + table_schema) \<times> 's session" where
  "get_table_schema env eng L table_name db =
     (case get_table_schema_try env eng L table_name db of
        (Inl (SQLAlchemyError e), db') \<Rightarrow>
          (Inl (HTTPException 500
                  ([1054, 1096, 1080, 1073, 1082, 1072] @ lit '' '' @
                   [1073, 1072, 1079, 1099] @ lit '' '' @
                   [1076, 1072, 1085, 1085, 1099, 1093] @ lit '': '' @ e)), db')
      | other \<Rightarrow> other)"

section \<open>A runtime, engines and schemas to run the handlers on\<close>

text \<open>
  The case tables restricted to ASCII, parsers that accept nothing, and a decimal
  conversion that is never called on the inputs below.
\<close>

definition ascii_lower :: "nat \<Rightarrow> pystr" where
  "ascii_lower c = (if 65 \<le> c \<and> c \<le> 90 then [c + 32] else [c])"

definition ascii_lib :: pylib where
  "ascii_lib =
     \<lparr>to_upper = ascii_upper, to_lower = ascii_lower, isoformat = (\<lambda>d. []),
      float_of_decimal = (\<lambda>q. undefined), date_fromisoformat = (\<lambda>s. None),
      datetime_fromisoformat = (\<lambda>s. None), int_of_str = (\<lambda>s. None),
      float_of_str = (\<lambda>s. None)\<rparr>"

text \<open>
  The state of these engines is the number of statements applied. One engine accepts
  every statement and returns no rows; one returns two rows of two columns; one raises
  on every statement.
\<close>

definition accepting_engine :: "nat engine" where
  "accepting_engine =
     \<lparr>run = (\<lambda>s stmt ps. Inr (\<lparr>keys = [], rows = [], rowcount = 1, no_rows = None\<rparr>, Suc s)),
      commit_error = (\<lambda>s. None)\<rparr>"


definition failing_engine :: "nat engine" where
  "failing_engine =
     \<lparr>run = (\<lambda>s stmt ps. Inl (lit ''connection lost'')), commit_error = (\<lambda>s. None)\<rparr>"

text \<open>
  A schema with the tables \<open>clients\<close> and \<open>payments\<close>; \<open>payments.client\<close> refers to
  \<open>clients.id\<close>.
\<close>

definition clients_table :: table where
  "clients_table =
     (let id_col = \<lparr>name = lit ''id'', type_str = lit ''INTEGER'', type_kind = Integer,
                     nullable = False, has_default = False, primary_key = True\<rparr>;
          fio_col = \<lparr>name = lit ''fio'', type_str = lit ''VARCHAR(100)'', type_kind = OtherType,
                      nullable = True, has_default = False, primary_key = False\<rparr>
      in \<lparr>table_columns = [id_col, fio_col], primary_key_columns = [id_col]\<rparr>)"

definition payments_table :: table where
  "payments_table =
     (let id_col = \<lparr>name = lit ''id'', type_str = lit ''INTEGER'', type_kind = Integer,
                     nullable = False, has_default = False, primary_key = True\<rparr>;
          client_col = \<lparr>name = lit ''client'', type_str = lit ''INTEGER'', type_kind = Integer,
                         nullable = False, has_default = False, primary_key = False\<rparr>
      in \<lparr>table_columns = [id_col, client_col], primary_key_columns = [id_col]\<rparr>)"

definition sample_env :: schema_env where
  "sample_env =
     \<lparr>table_names = [lit ''clients'', lit ''payments''],
      reflected = (\<lambda>t. if t = lit ''clients'' then Some clients_table
                       else if t = lit ''payments'' then Some payments_table else None),
      foreign_keys = (\<lambda>t. if t = lit ''payments''
                          then [\<lparr>constrained_columns = [lit ''client''],
                                 referred_table = lit ''clients'',
                                 referred_columns = [lit ''id'']\<rparr>]
                          else []),
      read_error = (\<lambda>n. None)\<rparr>"

text \<open>The same schema with the database unreachable: every read of the catalogue raises.\<close>

definition down_env :: schema_env where
  "down_env = sample_env\<lparr>read_error := (\<lambda>n. Some (lit ''connection refused''))\<rparr>"


section \<open>Observing a request\<close>


text \<open>The query was passed to the database: the session executed a statement.\<close>

definition is_execute :: "event \<Rightarrow> bool" where
  "is_execute ev = (case ev of EvExecute stmt ps ok \<Rightarrow> True | _ \<Rightarrow> False)"

text \<open>
  The keys of \<open>dict(form_data)\<close>, from the field names alone: each name once, where it
  first occurs. \<open>form_keys\<close> are the keys once \<open>table_name\<close> is deleted.
\<close>

definition dict_keys :: "pystr list \<Rightarrow> pystr list" where
  "dict_keys names = foldl (\<lambda>ks k. if k \<in> set ks then ks else ks @ [k]) [] names"

definition form_keys :: "request \<Rightarrow> pystr list" where
  "form_keys request =
     removeAll (lit ''table_name'') (dict_keys (map fst (form_data request)))"

section \<open>Properties of the string functions\<close>

lemma split_ws_pass: "list_all (\<lambda>d. \<not> isspace d) xs \<Longrightarrow> split_ws (xs @ rest) cur = split_ws rest (cur @ xs)"
  by (induction xs arbitrary: cur) auto

lemma py_upper_Nil_iff:
  "case_table_ok up \<Longrightarrow> list_all (\<lambda>d. \<not> isspace d) cur \<Longrightarrow> py_upper up cur = [] \<longleftrightarrow> cur = []"
proof (cases cur)
  case Nil
  then show ?thesis by (simp add: py_upper_def)
next
  case (Cons c cs)
  assume ok: "case_table_ok up" and ns: "list_all (\<lambda>d. \<not> isspace d) cur"
  from ns Cons have "\<not> isspace c" by simp
  with ok have "up c \<noteq> []" unfolding case_table_ok_def by (metis (full_types))
  with Cons show ?thesis by (simp add: py_upper_def)
qed

lemma py_upper_append: "py_upper up (xs @ ys) = py_upper up xs @ py_upper up ys"
  by (simp add: py_upper_def)

lemma split_ws_upper:
  "case_table_ok up \<Longrightarrow> list_all (\<lambda>d. \<not> isspace d) cur \<Longrightarrow>
   split_ws (py_upper up s) (py_upper up cur) = map (py_upper up) (split_ws s cur)"
proof (induction s arbitrary: cur)
  case Nil
  have e: "py_upper up [] = []" by (simp add: py_upper_def)
  show ?case using py_upper_Nil_iff[OF Nil.prems] by (simp add: e)
next
  case (Cons c cs)
  show ?case
  proof (cases "isspace c")
    case True
    with Cons.prems have upc: "up c = [c]" by (simp add: case_table_ok_def split: if_splits)
    have e: "py_upper up (c # cs) = c # py_upper up cs" by (simp add: py_upper_def upc)
    have n: "split_ws (py_upper up cs) [] = map (py_upper up) (split_ws cs [])"
      using Cons.IH[of "[]"] Cons.prems(1) by (simp add: py_upper_def)
    show ?thesis using True Cons.prems by (simp add: e n py_upper_Nil_iff)
  next
    case False
    with Cons.prems have upc: "up c \<noteq> []" "list_all (\<lambda>d. \<not> isspace d) (up c)"
      by (auto simp add: case_table_ok_def split: if_splits)
    have e: "py_upper up (c # cs) = up c @ py_upper up cs" by (simp add: py_upper_def)
    have u: "py_upper up cur @ up c = py_upper up (cur @ [c])" by (simp add: py_upper_def)
    have "split_ws (py_upper up (c # cs)) (py_upper up cur) = split_ws (py_upper up cs) (py_upper up (cur @ [c]))"
      by (simp only: e split_ws_pass[OF upc(2)] u)
    also have "\<dots> = map (py_upper up) (split_ws cs (cur @ [c]))"
      using Cons.IH[of "cur @ [c]"] Cons.prems False by simp
    finally show ?thesis using False by simp
  qed
qed

lemma py_split_upper: "case_table_ok up \<Longrightarrow> py_split (py_upper up s) = map (py_upper up) (py_split s)"
  using split_ws_upper[of up "[]" s] by (simp add: py_split_def py_upper_def)

lemma split_ws_dropWhile: "split_ws (dropWhile isspace s) [] = split_ws s []"
  by (induction s) auto

lemma split_ws_spaces: "list_all isspace w \<Longrightarrow> split_ws w cur = (if cur = [] then [] else [cur])"
  by (induction w arbitrary: cur) auto

lemma split_ws_trailing: "list_all isspace w \<Longrightarrow> split_ws (t @ w) cur = split_ws t cur"
  by (induction t arbitrary: cur) (auto simp: split_ws_spaces)

lemma strip_right_decomp: "s = rev (dropWhile P (rev s)) @ rev (takeWhile P (rev s))"
proof -
  have "rev (takeWhile P (rev s) @ dropWhile P (rev s)) = rev (rev s)"
    by (simp only: takeWhile_dropWhile_id)
  then show ?thesis by (simp only: rev_append rev_rev_ident)
qed

lemma split_ws_rstrip: "split_ws (rev (dropWhile isspace (rev s))) cur = split_ws s cur"
proof -
  have w: "list_all isspace (rev (takeWhile isspace (rev s)))"
    by (simp add: list_all_iff) (meson set_takeWhileD)
  show ?thesis
    using split_ws_trailing[OF w, of "rev (dropWhile isspace (rev s))" cur] strip_right_decomp[of s isspace]
    by simp
qed

lemma py_split_strip: "py_split (py_strip s) = py_split s"
  by (simp add: py_split_def py_strip_def split_ws_rstrip split_ws_dropWhile)

lemma dropWhile_all_iff: "(\<forall>x\<in>set (dropWhile P s). P x) \<longleftrightarrow> (\<forall>x\<in>set s. P x)"
  by (induction s) auto

lemma py_strip_Nil_iff: "py_strip s = [] \<longleftrightarrow> list_all isspace s"
  by (simp add: py_strip_def dropWhile_eq_Nil_conv list_all_iff dropWhile_all_iff)

lemma split_ws_Nil_iff: "split_ws s cur = [] \<longleftrightarrow> cur = [] \<and> list_all isspace s"
  by (induction s arbitrary: cur) auto

lemma py_split_Nil_iff: "py_split s = [] \<longleftrightarrow> list_all isspace s"
  by (simp add: py_split_def split_ws_Nil_iff)

lemma query_type_eq:
  "case_table_ok up \<Longrightarrow>
   py_split (py_strip (py_upper up (py_strip q))) = map (py_upper up) (py_split q)"
  by (simp add: py_split_strip py_split_upper)

lemma ascii_upper_ok: "case_table_ok ascii_upper"
  unfolding case_table_ok_def ascii_upper_def isspace_def by auto

lemma py_index_0_Cons: "py_index (x # xs) 0 = Inr x"
  by (simp add: py_index_def)

lemma query_type_of:
  assumes "case_table_ok (to_upper L)" and "py_split q = t # ts"
  shows "py_index (py_split (py_strip (py_upper (to_upper L) (py_strip q)))) 0 =
         Inr (py_upper (to_upper L) t)"
  using query_type_eq[OF assms(1), of q] assms(2) by (simp add: py_index_0_Cons)

lemma strip_nonempty: "py_split q = t # ts \<Longrightarrow> py_strip q \<noteq> []"
  using py_split_Nil_iff[of q] py_strip_Nil_iff[of q] by auto

lemma ascii_lib_ok: "case_table_ok (to_upper ascii_lib)"
  by (simp add: ascii_lib_def ascii_upper_ok)

section \<open>How the session operations leave the session\<close>

lemma catalogue_read_cases:
  assumes "catalogue_read env db = (r, d)"
  shows "events d = events db \<and> committed d = committed db \<and> working d = working db \<and>
         closed d = closed db \<and> reads d = Suc (reads db) \<and>
         ((read_error env (reads db) = None \<and> r = Inr () \<and> errors d = errors db) \<or>
          (\<exists>m. read_error env (reads db) = Some m \<and> r = Inl (SQLAlchemyError m) \<and>
               errors d = errors db @ [AtCatalogue]))"
  using assms by (auto simp: catalogue_read_def split: option.splits)

lemma get_table_names_cases:
  assumes "get_table_names env db = (r, d)"
  shows "events d = events db \<and> committed d = committed db \<and> working d = working db \<and>
         closed d = closed db \<and> reads d = Suc (reads db) \<and>
         ((read_error env (reads db) = None \<and> r = Inr (table_names env) \<and>
           errors d = errors db) \<or>
          (\<exists>m. read_error env (reads db) = Some m \<and> r = Inl (SQLAlchemyError m) \<and>
               errors d = errors db @ [AtCatalogue]))"
  using assms by (auto simp: get_table_names_def catalogue_read_def split: option.splits)

lemma get_table_names_ok:
  "read_error env (reads db) = None \<Longrightarrow>
   get_table_names env db = (Inr (table_names env), db\<lparr>reads := Suc (reads db)\<rparr>)"
  by (simp add: get_table_names_def catalogue_read_def)

lemma get_table_names_raises:
  "read_error env (reads db) = Some m \<Longrightarrow>
   get_table_names env db =
     (Inl (SQLAlchemyError m),
      db\<lparr>reads := Suc (reads db), errors := errors db @ [AtCatalogue]\<rparr>)"
  by (simp add: get_table_names_def catalogue_read_def)

lemma sql_template_cases:
  assumes "sql_template env cols ds q err ok db = (r, d)"
  shows "events d = events db \<and> committed d = committed db \<and> working d = working db \<and>
         closed d = closed db \<and> reads d = Suc (reads db) \<and>
         ((read_error env (reads db) = None \<and> errors d = errors db \<and>
           r = Inr \<lparr>tables = table_names env, columns = cols, data = ds,
                    current_query = lit ''custom_sql'', sql_query = q, sql_error = err,
                    sql_success = ok\<rparr>) \<or>
          (\<exists>m. read_error env (reads db) = Some m \<and> r = Inl (SQLAlchemyError m) \<and>
               errors d = errors db @ [AtCatalogue]))"
proof -
  obtain r0 d0 where g: "get_table_names env db = (r0, d0)"
    by (cases "get_table_names env db")
  from get_table_names_cases[OF g] assms g show ?thesis
    by (auto simp: sql_template_def)
qed

lemma db_execute_cases:
  assumes "db_execute eng db stmt ps = (r, d)"
  shows "committed d = committed db \<and> closed d = closed db \<and> reads d = reads db \<and>
         ((\<exists>e. r = Inl (SQLAlchemyError e) \<and> events d = events db @ [EvExecute stmt ps False] \<and>
               errors d = errors db @ [AtExecute] \<and> working d = working db) \<or>
          (\<exists>res s'. r = Inr res \<and> run eng (working db) stmt ps = Inr (res, s') \<and>
               working d = s' \<and>
               events d = events db @ [EvExecute stmt ps True] \<and> errors d = errors db))"
  using assms by (auto simp: db_execute_def split: sum.splits prod.splits)

lemma db_commit_cases:
  assumes "db_commit eng db = (r, d)"
  shows "closed d = closed db \<and> reads d = reads db \<and> working d = working db \<and>
         ((\<exists>e. r = Inl (SQLAlchemyError e) \<and> events d = events db @ [EvCommit False] \<and>
               errors d = errors db @ [AtCommit] \<and> committed d = committed db) \<or>
          (r = Inr () \<and> events d = events db @ [EvCommit True] \<and> errors d = errors db \<and>
               committed d = working db))"
  using assms by (auto simp: db_commit_def split: option.splits)

lemma execute_and_commit_cases:
  assumes "execute_and_commit eng db stmt ps = (r, d)"
  shows "closed d = closed db \<and> reads d = reads db \<and>
         ((\<exists>e. r = Inl (SQLAlchemyError e) \<and> events d = events db @ [EvExecute stmt ps False] \<and>
               errors d = errors db @ [AtExecute] \<and> committed d = committed db) \<or>
          (\<exists>e. r = Inl (SQLAlchemyError e) \<and>
               events d = events db @ [EvExecute stmt ps True, EvCommit False] \<and>
               errors d = errors db @ [AtCommit] \<and> committed d = committed db) \<or>
          (\<exists>res. r = Inr res \<and>
               events d = events db @ [EvExecute stmt ps True, EvCommit True] \<and>
               errors d = errors db))"
proof -
  obtain r1 d1 where e: "db_execute eng db stmt ps = (r1, d1)"
    by (cases "db_execute eng db stmt ps")
  obtain r2 d2 where c: "db_commit eng d1 = (r2, d2)" by (cases "db_commit eng d1")
  from db_execute_cases[OF e] db_commit_cases[OF c] assms e c show ?thesis
    by (auto simp: execute_and_commit_def)
qed

lemma result_keys_cases:
  assumes "result_keys res db = (r, d)"
  shows "events d = events db \<and> committed d = committed db \<and> working d = working db \<and>
         closed d = closed db \<and> reads d = reads db \<and>
         ((\<exists>m. r = Inl (SQLAlchemyError m) \<and> errors d = errors db @ [AtResult]) \<or>
          (r = Inr (keys res) \<and> no_rows res = None \<and> d = db))"
  using assms by (auto simp: result_keys_def split: option.splits)

lemma result_fetchall_cases:
  assumes "result_fetchall res db = (r, d)"
  shows "events d = events db \<and> committed d = committed db \<and> working d = working db \<and>
         closed d = closed db \<and> reads d = reads db \<and>
         ((\<exists>m. r = Inl (SQLAlchemyError m) \<and> errors d = errors db @ [AtResult]) \<or>
          (r = Inr (rows res) \<and> no_rows res = None \<and> d = db))"
  using assms by (auto simp: result_fetchall_def split: option.splits)

lemma row_to_dict_not_sql: "row_to_dict L ics row dct \<noteq> Inl (SQLAlchemyError e)"
  by (induction L ics row dct rule: row_to_dict.induct)
     (auto simp: py_index_def split: sum.splits if_splits)

lemma rows_to_data_not_sql: "rows_to_data L cols rws \<noteq> Inl (SQLAlchemyError e)"
  by (induction rws) (auto simp: row_to_dict_not_sql split: sum.splits)


lemma execute_custom_query_cases:
  assumes "execute_custom_query eng L query db = (r, d)"
  shows "committed d = committed db \<and> closed d = closed db \<and> reads d = reads db \<and>
         ((\<exists>e. r = Inl (SQLAlchemyError e) \<and> events d = events db @ [EvExecute query [] False] \<and>
               errors d = errors db @ [AtExecute]) \<or>
          (\<exists>e. r = Inl (SQLAlchemyError e) \<and> events d = events db @ [EvExecute query [] True] \<and>
               errors d = errors db @ [AtResult]) \<or>
          (\<exists>x. r = Inl x \<and> (\<forall>e. x \<noteq> SQLAlchemyError e) \<and>
               events d = events db @ [EvExecute query [] True] \<and> errors d = errors db) \<or>
          (\<exists>res s' ds. r = Inr (keys res, ds) \<and> run eng (working db) query [] = Inr (res, s') \<and>
               rows_to_data L (keys res) (rows res) = Inr ds \<and>
               events d = events db @ [EvExecute query [] True] \<and> errors d = errors db))"
proof -
  obtain r1 d1 where e: "db_execute eng db query [] = (r1, d1)"
    by (cases "db_execute eng db query []")
  show ?thesis
  proof (cases r1)
    case (Inl x)
    with db_execute_cases[OF e] assms e show ?thesis
      by (auto simp: execute_custom_query_def)
  next
    case (Inr res)
    obtain r2 d2 where k: "result_keys res d1 = (r2, d2)" by (cases "result_keys res d1")
    obtain r3 d3 where f: "result_fetchall res d2 = (r3, d3)"
      by (cases "result_fetchall res d2")
    from db_execute_cases[OF e] result_keys_cases[OF k] result_fetchall_cases[OF f]
      assms e Inr k f rows_to_data_not_sql[of L "keys res" "rows res"]
    show ?thesis
      by (auto simp: execute_custom_query_def split: sum.splits)
  qed
qed


lemma new_events_append: "events d = events db @ evs \<Longrightarrow> new_events db d = evs"
  by (simp add: new_events_def)

lemma new_errors_append: "errors d = errors db @ errs \<Longrightarrow> new_errors db d = errs"
  by (simp add: new_errors_def)



section \<open>Properties of \<open>execute_sql\<close>\<close>

lemma is_execute_simps:
  "is_execute (EvExecute stmt ps ok) = True"
  "is_execute (EvCommit ok) = False"
  "is_execute EvRollback = False"
  "is_execute EvClose = False"
  by (simp_all add: is_execute_def)

lemma split_on_nonempty: "split_on sep cur s \<noteq> []"
  by (induction sep cur s rule: split_on.induct) auto

lemma split_on_contains:
  "sep \<noteq> [] \<Longrightarrow> contains sep s \<Longrightarrow> 2 \<le> length (split_on sep cur s)"
proof (induction sep cur s rule: split_on.induct)
  case (1 sep cur)
  then show ?case by simp
next
  case (2 sep cur c cs)
  show ?case
  proof (cases "prefix sep (c # cs)")
    case True
    have "split_on sep [] (drop (length sep) (c # cs)) \<noteq> []" by (rule split_on_nonempty)
    then have "1 \<le> length (split_on sep [] (drop (length sep) (c # cs)))"
      by (cases "split_on sep [] (drop (length sep) (c # cs))") auto
    then show ?thesis using True 2 by simp
  next
    case False
    then show ?thesis using 2 by auto
  qed
qed

lemma py_index_0_total: "xs \<noteq> [] \<Longrightarrow> \<exists>x. py_index xs 0 = Inr x"
  by (cases xs) (auto simp: py_index_def)

lemma sql_error_message_total: "\<exists>m. sql_error_message e = Inr m"
proof -
  obtain a where a: "py_index (split_on [10] [] e) 0 = Inr a"
    using py_index_0_total[OF split_on_nonempty] by blast
  show ?thesis
  proof (cases "contains (lit ''DETAIL:'') e")
    case False
    then show ?thesis by (simp add: sql_error_message_def a)
  next
    case True
    have "lit ''DETAIL:'' \<noteq> []" by (simp add: lit_def)
    from split_on_contains[OF this True, of "[]"]
    have b: "py_index (split_on (lit ''DETAIL:'') [] e) (Suc 0) =
             Inr (split_on (lit ''DETAIL:'') [] e ! Suc 0)" by (simp add: py_index_def)
    obtain c where
      c: "py_index (split_on [10] [] (split_on (lit ''DETAIL:'') [] e ! Suc 0)) 0 = Inr c"
      using py_index_0_total[OF split_on_nonempty] by blast
    show ?thesis using True by (simp add: sql_error_message_def a b c)
  qed
qed

text \<open>What the two \<open>except\<close> clauses add to the session the \<open>try\<close> block left.\<close>

lemma execute_sql_after_try:
  assumes "execute_sql env eng L q db = (r, d)"
    and "execute_sql_try env eng L (py_strip q) db = (r0, d0)"
  shows "(r0 = r \<and> d = d0 \<and> (\<exists>pg. r0 = Inr pg)) \<or>
         (\<exists>e m. r0 = Inl (SQLAlchemyError e) \<and> sql_error_message e = Inr m \<and>
            sql_template env [] [] (py_strip q) (Some m) None (db_rollback d0) = (r, d)) \<or>
         (\<exists>x. r0 = Inl x \<and> (\<forall>e. x \<noteq> SQLAlchemyError e) \<and>
            sql_template env [] [] (py_strip q) (Some (msg_unexpected (str_exn x))) None d0 =
              (r, d))"
proof (cases r0)
  case (Inr pg)
  with assms show ?thesis by (auto simp: execute_sql_def)
next
  case (Inl x)
  show ?thesis
  proof (cases "\<exists>e. x = SQLAlchemyError e")
    case True
    then obtain e where e: "x = SQLAlchemyError e" by blast
    obtain m where m: "sql_error_message e = Inr m" using sql_error_message_total by blast
    from assms Inl e m show ?thesis by (simp add: execute_sql_def Let_def)
  next
    case False
    with assms Inl show ?thesis by (cases x) (auto simp: execute_sql_def Let_def)
  qed
qed

lemma execute_sql_events:
  assumes "execute_sql env eng L q db = (r, d)"
    and "execute_sql_try env eng L (py_strip q) db = (r0, d0)"
  shows "events d = events d0 \<or> events d = events d0 @ [EvRollback]"
proof -
  from execute_sql_after_try[OF assms] show ?thesis
  proof (elim disjE exE conjE)
    fix e m
    assume "sql_template env [] [] (py_strip q) (Some m) None (db_rollback d0) = (r, d)"
    from sql_template_cases[OF this] show ?thesis by (simp add: db_rollback_def)
  next
    fix x
    assume "sql_template env [] [] (py_strip q) (Some (msg_unexpected (str_exn x))) None d0 =
              (r, d)"
    from sql_template_cases[OF this] show ?thesis by simp
  qed simp
qed

lemma execute_sql_try_denied:
  assumes "case_table_ok (to_upper L)"
    and "py_split (py_strip q) = t # ts"
    and "py_upper (to_upper L) t \<in> set dangerous_keywords"
  shows "execute_sql_try env eng L (py_strip q) db =
         sql_template env [] [] (py_strip q)
           (Some (msg_restricted (py_upper (to_upper L) t))) None db"
proof -
  have sp: "py_split q = t # ts" using assms(2) by (simp add: py_split_strip)
  have ne: "py_strip q \<noteq> []" by (rule strip_nonempty[OF sp])
  have qt: "py_index (py_split (py_strip (py_upper (to_upper L) (py_strip q)))) 0 =
         Inr (py_upper (to_upper L) t)" by (rule query_type_of[OF assms(1) sp])
  have d: "py_upper (to_upper L) t \<noteq> lit ''SELECT''"
     "py_upper (to_upper L) t \<noteq> lit ''INSERT''"
     "py_upper (to_upper L) t \<noteq> lit ''UPDATE''"
     "py_upper (to_upper L) t \<noteq> lit ''DELETE''"
    using assms(3) by (auto simp: dangerous_keywords_def lit_def)
  show ?thesis using ne assms(3) d by (simp add: execute_sql_try_def qt)
qed

lemma execute_sql_try_allowed:
  assumes "case_table_ok (to_upper L)"
    and "py_split (py_strip q) = t # ts"
    and "py_upper (to_upper L) t \<notin> set dangerous_keywords"
    and "execute_sql_try env eng L (py_strip q) db = (r, d)"
  shows "\<exists>ok evs. events d = events db @ EvExecute (py_strip q) [] ok # evs"
proof -
  have sp: "py_split q = t # ts" using assms(2) by (simp add: py_split_strip)
  have ne: "py_strip q \<noteq> []" by (rule strip_nonempty[OF sp])
  have qt: "py_index (py_split (py_strip (py_upper (to_upper L) (py_strip q)))) 0 =
         Inr (py_upper (to_upper L) t)" by (rule query_type_of[OF assms(1) sp])
  let ?q = "py_strip q"
  have branch: "\<And>err ok.
     (case execute_and_commit eng db ?q [] of
           (Inl e, db') \<Rightarrow> (Inl e, db')
         | (Inr res, db') \<Rightarrow> sql_template env [] [] ?q (err res) (ok res) db') = (r, d) \<Longrightarrow>
     \<exists>ok evs. events d = events db @ EvExecute ?q [] ok # evs"
  proof -
    fix err ok
    assume a: "(case execute_and_commit eng db ?q [] of
           (Inl e, db') \<Rightarrow> (Inl e, db')
         | (Inr res, db') \<Rightarrow> sql_template env [] [] ?q (err res) (ok res) db') = (r, d)"
    obtain r1 d1 where c: "execute_and_commit eng db ?q [] = (r1, d1)"
      by (cases "execute_and_commit eng db ?q []")
    show "\<exists>ok evs. events d = events db @ EvExecute ?q [] ok # evs"
    proof (cases r1)
      case (Inl x)
      with a c have "d = d1" by simp
      with execute_and_commit_cases[OF c] show ?thesis by auto
    next
      case (Inr res)
      with a c have t: "sql_template env [] [] ?q (err res) (ok res) d1 = (r, d)" by simp
      from execute_and_commit_cases[OF c] sql_template_cases[OF t] show ?thesis by auto
    qed
  qed
  show ?thesis
  proof (cases "py_upper (to_upper L) t = lit ''SELECT''")
    case True
    obtain r1 d1 where c: "execute_custom_query eng L ?q db = (r1, d1)"
      by (cases "execute_custom_query eng L ?q db")
    show ?thesis
    proof (cases r1)
      case (Inl x)
      with assms(4) ne True c have "d = d1" by (simp add: execute_sql_try_def qt)
      with execute_custom_query_cases[OF c] show ?thesis by auto
    next
      case (Inr p)
      obtain cols ds where p: "p = (cols, ds)" by (cases p)
      from assms(4) ne True c Inr p have
        t: "sql_template env cols ds ?q None (Some (msg_found (length ds))) d1 = (r, d)"
        by (simp add: execute_sql_try_def qt)
      from execute_custom_query_cases[OF c] sql_template_cases[OF t] show ?thesis by auto
    qed
  next
    case ns: False
    show ?thesis
    proof (cases "py_upper (to_upper L) t \<in> set [lit ''INSERT'', lit ''UPDATE'', lit ''DELETE'']")
      case True
      from assms(4) ne ns True show ?thesis
        by (intro branch[where err = "\<lambda>res. None"
              and ok = "\<lambda>res. Some (msg_affected (rowcount res))"])
           (simp add: execute_sql_try_def qt)
    next
      case False
      from assms(3,4) ne ns False show ?thesis
        by (intro branch[where err = "\<lambda>res. None" and ok = "\<lambda>res. Some msg_success"])
           (simp add: execute_sql_try_def qt)
    qed
  qed
qed

lemma execute_sql_passes_iff:
  assumes "case_table_ok (to_upper L)"
    and "py_split (py_strip q) = t # ts"
  shows "list_ex is_execute (new_events db (snd (execute_sql env eng L q db))) \<longleftrightarrow>
         py_upper (to_upper L) t \<notin> set dangerous_keywords"
proof -
  obtain r d where h: "execute_sql env eng L q db = (r, d)"
    by (cases "execute_sql env eng L q db")
  obtain r0 d0 where t: "execute_sql_try env eng L (py_strip q) db = (r0, d0)"
    by (cases "execute_sql_try env eng L (py_strip q) db")
  note ev = execute_sql_events[OF h t]
  show ?thesis
  proof (cases "py_upper (to_upper L) t \<in> set dangerous_keywords")
    case True
    from t execute_sql_try_denied[OF assms True, of env eng db]
    have "sql_template env [] [] (py_strip q)
           (Some (msg_restricted (py_upper (to_upper L) t))) None db = (r0, d0)" by simp
    from sql_template_cases[OF this] have "events d0 = events db" by simp
    with ev have "new_events db d = [] \<or> new_events db d = [EvRollback]"
      by (auto simp: new_events_def)
    then show ?thesis using True h by (auto simp: is_execute_simps)
  next
    case False
    from execute_sql_try_allowed[OF assms False t] obtain ok evs where
      "events d0 = events db @ EvExecute (py_strip q) [] ok # evs" by blast
    with ev have "new_events db d = EvExecute (py_strip q) [] ok # evs \<or>
        new_events db d = EvExecute (py_strip q) [] ok # evs @ [EvRollback]"
      by (auto simp: new_events_def)
    then show ?thesis using False h by (auto simp: is_execute_simps)
  qed
qed

lemma sql_template_ok:
  "read_error env (reads db) = None \<Longrightarrow>
   sql_template env cols ds q err ok db =
     (Inr \<lparr>tables = table_names env, columns = cols, data = ds,
           current_query = lit ''custom_sql'', sql_query = q, sql_error = err,
           sql_success = ok\<rparr>, db\<lparr>reads := Suc (reads db)\<rparr>)"
  by (simp add: sql_template_def get_table_names_ok)

lemma sql_template_raises:
  "read_error env (reads db) = Some m \<Longrightarrow>
   sql_template env cols ds q err ok db =
     (Inl (SQLAlchemyError m),
      db\<lparr>reads := Suc (reads db), errors := errors db @ [AtCatalogue]\<rparr>)"
  by (simp add: sql_template_def get_table_names_raises)

lemma execute_sql_unreadable:
  assumes "execute_sql_try env eng L (py_strip q) db = sql_template env cols ds q' err ok db"
    and "read_error env (reads db) = Some m"
    and "read_error env (Suc (reads db)) = Some m'"
  shows "fst (execute_sql env eng L q db) = Inl (SQLAlchemyError m')"
proof -
  obtain em where em: "sql_error_message m = Inr em"
    using sql_error_message_total by blast
  have r: "read_error env (reads (db_rollback
      (db\<lparr>reads := Suc (reads db), errors := errors db @ [AtCatalogue]\<rparr>))) = Some m'"
    using assms(3) by (simp add: db_rollback_def)
  show ?thesis
    by (simp add: execute_sql_def assms(1) sql_template_raises[OF assms(2)] em Let_def
        sql_template_raises[OF r])
qed

lemma execute_sql_rendered:
  assumes "execute_sql_try env eng L (py_strip q) db = sql_template env cols ds q' err ok db"
  shows "\<not> list_ex is_execute (new_events db (snd (execute_sql env eng L q db)))"
    and "read_error env (reads db) = None \<Longrightarrow>
         execute_sql env eng L q db =
           (Inr \<lparr>tables = table_names env, columns = cols, data = ds,
                 current_query = lit ''custom_sql'', sql_query = q', sql_error = err,
                 sql_success = ok\<rparr>, db\<lparr>reads := Suc (reads db)\<rparr>)"
proof -
  obtain r d where h: "execute_sql env eng L q db = (r, d)"
    by (cases "execute_sql env eng L q db")
  obtain r0 d0 where t: "execute_sql_try env eng L (py_strip q) db = (r0, d0)"
    by (cases "execute_sql_try env eng L (py_strip q) db")
  from t assms have "sql_template env cols ds q' err ok db = (r0, d0)" by simp
  from sql_template_cases[OF this] have "events d0 = events db" by simp
  with execute_sql_events[OF h t]
  have "new_events db d = [] \<or> new_events db d = [EvRollback]"
    by (auto simp: new_events_def)
  then show "\<not> list_ex is_execute (new_events db (snd (execute_sql env eng L q db)))"
    using h by (auto simp: is_execute_simps)
  assume "read_error env (reads db) = None"
  then show "execute_sql env eng L q db =
           (Inr \<lparr>tables = table_names env, columns = cols, data = ds,
                 current_query = lit ''custom_sql'', sql_query = q', sql_error = err,
                 sql_success = ok\<rparr>, db\<lparr>reads := Suc (reads db)\<rparr>)"
    using assms by (simp add: execute_sql_def sql_template_ok)
qed

text \<open>
  C8. A query that is empty or holds only whitespace is never executed and never
  reaches the classification by the first token: no statement is passed to the
  database, whatever the runtime, the engine and the catalogue. When
  \<open>get_table_names()\<close> returns, the handler returns the page with the message that the
  query may not be empty. For every other query the token list is not empty, so taking
  its first element does not raise.
\<close>

theorem execute_sql_blank:
  "(list_all isspace q \<longrightarrow>
      \<not> list_ex is_execute (new_events db (snd (execute_sql env eng L q db))) \<and>
      (read_error env (reads db) = None \<longrightarrow>
         execute_sql env eng L q db =
           (Inr \<lparr>tables = table_names env, columns = [], data = [],
                 current_query = lit ''custom_sql'', sql_query = [],
                 sql_error = Some msg_empty_query, sql_success = None\<rparr>,
            db\<lparr>reads := Suc (reads db)\<rparr>))) \<and>
   (\<not> list_all isspace q \<longrightarrow> case_table_ok (to_upper L) \<longrightarrow>
      (\<exists>t. py_index (py_split (py_strip (py_upper (to_upper L) (py_strip q)))) 0 = Inr t))"
proof (intro conjI impI)
  assume "list_all isspace q"
  then have s: "py_strip q = []" by (simp add: py_strip_Nil_iff)
  then have t: "execute_sql_try env eng L (py_strip q) db =
        sql_template env [] [] [] (Some msg_empty_query) None db"
    by (simp add: execute_sql_try_def)
  show "\<not> list_ex is_execute (new_events db (snd (execute_sql env eng L q db)))"
    by (rule execute_sql_rendered(1)[OF t])
  assume "read_error env (reads db) = None"
  then show "execute_sql env eng L q db =
           (Inr \<lparr>tables = table_names env, columns = [], data = [],
                 current_query = lit ''custom_sql'', sql_query = [],
                 sql_error = Some msg_empty_query, sql_success = None\<rparr>,
            db\<lparr>reads := Suc (reads db)\<rparr>)"
    by (rule execute_sql_rendered(2)[OF t])
next
  assume ns: "\<not> list_all isspace q" and ok: "case_table_ok (to_upper L)"
  from ns obtain t ts where "py_split q = t # ts"
    using py_split_Nil_iff[of q] by (cases "py_split q") auto
  from query_type_of[OF ok this]
  show "\<exists>t. py_index (py_split (py_strip (py_upper (to_upper L) (py_strip q)))) 0 = Inr t"
    by blast
qed

lemma sample_env_reads: "read_error sample_env n = None" "table_names sample_env =
    [lit ''clients'', lit ''payments'']"
  by (simp_all add: sample_env_def)

lemma down_env_reads: "read_error down_env n = Some (lit ''connection refused'')"
  by (simp add: down_env_def)

theorem execute_sql_blank_witness:
  "\<not> list_ex is_execute (new_events (SessionLocal 0)
       (snd (execute_sql sample_env accepting_engine ascii_lib (lit ''  '' @ [9, 10])
              (SessionLocal 0)))) \<and>
   execute_sql sample_env accepting_engine ascii_lib (lit ''  '' @ [9, 10]) (SessionLocal 0) =
     (Inr \<lparr>tables = table_names sample_env, columns = [], data = [],
           current_query = lit ''custom_sql'', sql_query = [],
           sql_error = Some msg_empty_query, sql_success = None\<rparr>,
      (SessionLocal 0)\<lparr>reads := 1\<rparr>) \<and>
   (\<exists>t. py_index (py_split (py_strip (py_upper (to_upper ascii_lib)
          (py_strip (lit ''select 1''))))) 0 = Inr t)"
proof -
  have a: "list_all isspace (lit ''  '' @ [9, 10])" by (simp add: lit_def isspace_def)
  have b: "\<not> list_all isspace (lit ''select 1'')" by (simp add: lit_def isspace_def)
  have c: "read_error sample_env (reads (SessionLocal (0::nat))) = None"
    by (rule sample_env_reads)
  note t1 = execute_sql_blank[where q = "lit ''  '' @ [9, 10]" and env = sample_env
            and eng = accepting_engine and L = ascii_lib and db = "SessionLocal (0::nat)"]
  note t2 = execute_sql_blank[where q = "lit ''select 1''" and L = ascii_lib]
  have r: "reads (SessionLocal (0::nat)) = 0" by (simp add: SessionLocal_def)
  from t1 a c t2 b ascii_lib_ok show ?thesis
    by (simp add: r new_events_def SessionLocal_def)
qed

text \<open>
  The claim without the condition on \<open>get_table_names()\<close> fails: with the database
  unreachable, the blank query gets no page; the exception of the second
  \<open>get_table_names()\<close>, the one in the \<open>except\<close> clause, leaves the handler.
\<close>

theorem execute_sql_blank_counterexample:
  "list_all isspace (lit ''  '') \<and>
   fst (execute_sql down_env accepting_engine ascii_lib (lit ''  '') (SessionLocal 0)) =
     Inl (SQLAlchemyError (lit ''connection refused''))"
proof -
  have a: "list_all isspace (lit ''  '')" by (simp add: lit_def isspace_def)
  then have "py_strip (lit ''  '') = []" by (simp add: py_strip_Nil_iff)
  then have t: "execute_sql_try down_env accepting_engine ascii_lib (py_strip (lit ''  ''))
        (SessionLocal 0) =
      sql_template down_env [] [] [] (Some msg_empty_query) None (SessionLocal 0)"
    by (simp add: execute_sql_try_def)
  from execute_sql_unreadable[OF t down_env_reads down_env_reads] a show ?thesis by simp
qed

text \<open>
  C1. When the first whitespace-delimited token of the stripped query, uppercased, is
  one of \<open>DROP\<close>, \<open>CREATE\<close>, \<open>ALTER\<close>, \<open>TRUNCATE\<close>, \<open>GRANT\<close> and \<open>REVOKE\<close>, the
  query is not passed to the database, whatever the engine and the catalogue. When
  \<open>get_table_names()\<close> returns, the handler returns the page whose \<open>sql_error\<close> is the
  restriction message built around that query type and whose \<open>sql_success\<close> is
  \<open>None\<close>.
\<close>

theorem execute_sql_denies:
  assumes "case_table_ok (to_upper L)"
    and "py_split (py_strip q) = t # ts"
    and "py_upper (to_upper L) t \<in> set dangerous_keywords"
  shows "\<not> list_ex is_execute (new_events db (snd (execute_sql env eng L q db))) \<and>
         (read_error env (reads db) = None \<longrightarrow>
            execute_sql env eng L q db =
              (Inr \<lparr>tables = table_names env, columns = [], data = [],
                    current_query = lit ''custom_sql'', sql_query = py_strip q,
                    sql_error = Some (msg_restricted (py_upper (to_upper L) t)),
                    sql_success = None\<rparr>,
               db\<lparr>reads := Suc (reads db)\<rparr>))"
  using execute_sql_rendered[OF execute_sql_try_denied[OF assms]] by blast

theorem execute_sql_denies_witness:
  "\<not> list_ex is_execute (new_events (SessionLocal 0)
       (snd (execute_sql sample_env accepting_engine ascii_lib (lit '' drop table clients '')
              (SessionLocal 0)))) \<and>
   execute_sql sample_env accepting_engine ascii_lib (lit '' drop table clients '')
     (SessionLocal 0) =
     (Inr \<lparr>tables = table_names sample_env, columns = [], data = [],
           current_query = lit ''custom_sql'', sql_query = lit ''drop table clients'',
           sql_error = Some (msg_restricted (lit ''DROP'')), sql_success = None\<rparr>,
      (SessionLocal 0)\<lparr>reads := 1\<rparr>)"
proof -
  have s: "py_strip (lit '' drop table clients '') = lit ''drop table clients''"
    by (simp add: py_strip_def lit_def isspace_def)
  have sp: "py_split (py_strip (lit '' drop table clients '')) =
            lit ''drop'' # [lit ''table'', lit ''clients'']"
    by (simp add: py_strip_def py_split_def lit_def isspace_def)
  have u: "py_upper (to_upper ascii_lib) (lit ''drop'') = lit ''DROP''"
    by (simp add: py_upper_def ascii_lib_def ascii_upper_def lit_def)
  have d: "py_upper (to_upper ascii_lib) (lit ''drop'') \<in> set dangerous_keywords"
    by (simp add: u dangerous_keywords_def)
  have c: "read_error sample_env (reads (SessionLocal (0::nat))) = None"
    by (rule sample_env_reads)
  have r: "reads (SessionLocal (0::nat)) = 0" by (simp add: SessionLocal_def)
  show ?thesis
    using execute_sql_denies[OF ascii_lib_ok sp d, of "SessionLocal 0" sample_env
        accepting_engine] c
    by (simp add: s u r new_events_def SessionLocal_def)
qed

text \<open>
  The claim without the condition on \<open>get_table_names()\<close> fails: with the database
  unreachable, a \<open>DROP\<close> gets no page.
\<close>

theorem execute_sql_denies_counterexample:
  "py_split (py_strip (lit ''drop table clients'')) =
     lit ''drop'' # [lit ''table'', lit ''clients''] \<and>
   py_upper (to_upper ascii_lib) (lit ''drop'') \<in> set dangerous_keywords \<and>
   fst (execute_sql down_env accepting_engine ascii_lib (lit ''drop table clients'')
          (SessionLocal 0)) =
     Inl (SQLAlchemyError (lit ''connection refused''))"
proof -
  have sp: "py_split (py_strip (lit ''drop table clients'')) =
            lit ''drop'' # [lit ''table'', lit ''clients'']"
    by (simp add: py_strip_def py_split_def lit_def isspace_def)
  have u: "py_upper (to_upper ascii_lib) (lit ''drop'') = lit ''DROP''"
    by (simp add: py_upper_def ascii_lib_def ascii_upper_def lit_def)
  have d: "py_upper (to_upper ascii_lib) (lit ''drop'') \<in> set dangerous_keywords"
    by (simp add: u dangerous_keywords_def)
  have t: "execute_sql_try down_env accepting_engine ascii_lib
             (py_strip (lit ''drop table clients'')) (SessionLocal 0) =
           sql_template down_env [] [] (py_strip (lit ''drop table clients''))
             (Some (msg_restricted (py_upper (to_upper ascii_lib) (lit ''drop'')))) None
             (SessionLocal 0)"
    by (rule execute_sql_try_denied[OF ascii_lib_ok sp d])
  note e = execute_sql_unreadable[OF t down_env_reads down_env_reads]
  from e sp d show ?thesis by simp
qed

lemma execute_sql_denied_iff:
  assumes "case_table_ok (to_upper L)"
    and "py_split (py_strip q) = t # ts"
    and "read_error env (reads db) = None"
  shows "new_events db (snd (execute_sql env eng L q db)) = [] \<longleftrightarrow>
         py_upper (to_upper L) t \<in> set dangerous_keywords"
proof (cases "py_upper (to_upper L) t \<in> set dangerous_keywords")
  case True
  from execute_sql_rendered(2)[OF execute_sql_try_denied[OF assms(1,2) True] assms(3)]
  have "snd (execute_sql env eng L q db) = db\<lparr>reads := Suc (reads db)\<rparr>" by simp
  then show ?thesis using True by (simp add: new_events_def)
next
  case False
  with execute_sql_passes_iff[OF assms(1,2), of db env eng] show ?thesis by auto
qed

text \<open>
  C3. The decision to allow or deny depends only on the first whitespace-delimited
  token of the stripped query, uppercased. A query is allowed when the handler passes
  a statement to the database, and denied when it passes none. Two queries whose first
  tokens agree after uppercasing get the same decision, whatever follows the token,
  whatever the session, the schema and the engine. Where the table list can be read
  for the page, a denied query is also the one that leaves no event on the session.
\<close>

theorem execute_sql_same_decision:
  assumes "case_table_ok (to_upper L)"
    and "py_split (py_strip q1) = t1 # r1"
    and "py_split (py_strip q2) = t2 # r2"
    and "py_upper (to_upper L) t1 = py_upper (to_upper L) t2"
  shows "(list_ex is_execute (new_events db1 (snd (execute_sql env1 eng1 L q1 db1))) =
          list_ex is_execute (new_events db2 (snd (execute_sql env2 eng2 L q2 db2)))) \<and>
         (read_error env1 (reads db1) = None \<longrightarrow> read_error env2 (reads db2) = None \<longrightarrow>
            (new_events db1 (snd (execute_sql env1 eng1 L q1 db1)) = []) =
            (new_events db2 (snd (execute_sql env2 eng2 L q2 db2)) = []))"
  using execute_sql_passes_iff[OF assms(1,2), of db1 env1 eng1]
        execute_sql_passes_iff[OF assms(1,3), of db2 env2 eng2]
        execute_sql_denied_iff[OF assms(1,2), of env1 db1 eng1]
        execute_sql_denied_iff[OF assms(1,3), of env2 db2 eng2] assms(4)
  by simp

theorem execute_sql_same_decision_witness:
  "(list_ex is_execute (new_events (SessionLocal 0)
       (snd (execute_sql sample_env accepting_engine ascii_lib (lit ''select * from clients'')
              (SessionLocal 0)))) =
    list_ex is_execute (new_events (SessionLocal 7)
       (snd (execute_sql down_env failing_engine ascii_lib
              (lit '' SeLeCt 1; drop table clients'') (SessionLocal 7))))) \<and>
   list_ex is_execute (new_events (SessionLocal 0)
       (snd (execute_sql sample_env accepting_engine ascii_lib (lit ''select * from clients'')
              (SessionLocal 0)))) \<and>
   ((new_events (SessionLocal 0)
       (snd (execute_sql sample_env accepting_engine ascii_lib (lit ''drop table clients'')
              (SessionLocal 0))) = []) =
    (new_events (SessionLocal 7)
       (snd (execute_sql sample_env failing_engine ascii_lib (lit ''  DROP  index i'')
              (SessionLocal 7))) = [])) \<and>
   new_events (SessionLocal 0)
       (snd (execute_sql sample_env accepting_engine ascii_lib (lit ''drop table clients'')
              (SessionLocal 0))) = []"
proof -
  have sp1: "py_split (py_strip (lit ''select * from clients'')) =
            lit ''select'' # [lit ''*'', lit ''from'', lit ''clients'']"
    by (simp add: py_strip_def py_split_def lit_def isspace_def)
  have sp2: "py_split (py_strip (lit '' SeLeCt 1; drop table clients'')) =
            lit ''SeLeCt'' # [lit ''1;'', lit ''drop'', lit ''table'', lit ''clients'']"
    by (simp add: py_strip_def py_split_def lit_def isspace_def)
  have u: "py_upper (to_upper ascii_lib) (lit ''select'') =
           py_upper (to_upper ascii_lib) (lit ''SeLeCt'')"
    by (simp add: py_upper_def ascii_lib_def ascii_upper_def lit_def)
  have sp3: "py_split (py_strip (lit ''drop table clients'')) =
            lit ''drop'' # [lit ''table'', lit ''clients'']"
    by (simp add: py_strip_def py_split_def lit_def isspace_def)
  have sp4: "py_split (py_strip (lit ''  DROP  index i'')) =
            lit ''DROP'' # [lit ''index'', lit ''i'']"
    by (simp add: py_strip_def py_split_def lit_def isspace_def)
  have v: "py_upper (to_upper ascii_lib) (lit ''drop'') =
           py_upper (to_upper ascii_lib) (lit ''DROP'')"
    by (simp add: py_upper_def ascii_lib_def ascii_upper_def lit_def)
  have a: "list_ex is_execute (new_events (SessionLocal 0)
       (snd (execute_sql sample_env accepting_engine ascii_lib (lit ''select * from clients'')
              (SessionLocal 0))))"
    using execute_sql_passes_iff[OF ascii_lib_ok sp1, of "SessionLocal 0" sample_env
        accepting_engine]
    by (simp add: py_upper_def ascii_lib_def ascii_upper_def lit_def dangerous_keywords_def)
  have b: "new_events (SessionLocal 0)
       (snd (execute_sql sample_env accepting_engine ascii_lib (lit ''drop table clients'')
              (SessionLocal 0))) = []"
    using execute_sql_denied_iff[OF ascii_lib_ok sp3 sample_env_reads(1),
        of "SessionLocal 0" accepting_engine]
    by (simp add: py_upper_def ascii_lib_def ascii_upper_def lit_def dangerous_keywords_def)
  note c1 = execute_sql_same_decision[OF ascii_lib_ok sp1 sp2 u, of "SessionLocal 0" sample_env
        accepting_engine "SessionLocal 7" down_env failing_engine]
  note c2 = execute_sql_same_decision[OF ascii_lib_ok sp3 sp4 v, of "SessionLocal 0" sample_env
        accepting_engine "SessionLocal 7" sample_env failing_engine]
  from c1 c2 a b sample_env_reads(1) show ?thesis by simp
qed

section \<open>Properties of \<open>get_db\<close>\<close>

text \<open>
  C7. The session that \<open>get_db\<close> opens is closed when the scope ends: whatever the
  code using the session does and returns, the session it leaves is closed, and when
  that code raises, the exception is passed on after the session is closed.
\<close>

theorem get_db_closes:
  "closed (snd (get_db s body)) \<and>
   fst (get_db s body) = fst (body (SessionLocal s)) \<and>
   snd (get_db s body) = db_close (snd (body (SessionLocal s))) \<and>
   (\<forall>e db'. body (SessionLocal s) = (Inl e, db') \<longrightarrow> get_db s body = (Inl e, db_close db'))"
  by (auto simp: get_db_def DatabaseManager_get_db_def db_close_def Let_def
      split: prod.splits sum.splits)

theorem get_db_closes_witness:
  "closed (snd (get_db (0::nat) (\<lambda>db. (Inl (KeyError []) :: exn + unit, db_rollback db)))) \<and>
   get_db (0::nat) (\<lambda>db. (Inl (KeyError []) :: exn + unit, db_rollback db)) =
     (Inl (KeyError []), db_close (db_rollback (SessionLocal 0)))"
  using get_db_closes[of "0::nat" "\<lambda>db::nat session. (Inl (KeyError []) :: exn + unit, db_rollback db)"]
  by (simp add: db_close_def)

section \<open>Properties of the reports\<close>

lemma row_to_dict_ok:
  "n + length cols \<le> length row \<Longrightarrow>
   \<exists>d'. row_to_dict L (enumerate n cols) row d = Inr d' \<and>
        set (map fst d') = set (map fst d) \<union> set cols"
proof (induction cols arbitrary: n d)
  case Nil
  then show ?case by simp
next
  case (Cons c cs)
  have i: "py_index row n = Inr (row ! n)" using Cons.prems by (simp add: py_index_def)
  have "Suc n + length cs \<le> length row" using Cons.prems by simp
  from Cons.IH[OF this, of "AList.update c (jsonable L (row ! n)) d"]
  show ?case by (auto simp: i dom_update)
qed

lemma rows_to_data_ok:
  "\<forall>row\<in>set rws. length cols \<le> length row \<Longrightarrow>
   \<exists>ds. rows_to_data L cols rws = Inr ds \<and> length ds = length rws \<and>
        (\<forall>d\<in>set ds. set (map fst d) = set cols)"
proof (induction rws)
  case Nil
  then show ?case by simp
next
  case (Cons r rs)
  from Cons.prems have "0 + length cols \<le> length r" by simp
  from row_to_dict_ok[OF this, of L "[]"] obtain d' where
    d: "row_to_dict L (enumerate 0 cols) r [] = Inr d'" "set (map fst d') = set cols" by auto
  from Cons obtain ds where
    ds: "rows_to_data L cols rs = Inr ds" "length ds = length rs"
        "\<forall>d\<in>set ds. set (map fst d) = set cols" by auto
  show ?case using d ds by simp
qed







section \<open>Properties of \<open>show_tables\<close>\<close>

lemma show_tables_unlisted:
  assumes "read_error env (reads db) = None"
    and "\<forall>t. table_name = Some t \<longrightarrow> t \<notin> set (table_names env)"
  shows "show_tables env eng L table_name msg mt db =
     (Inr (view_template (table_names env) table_name [] [] [] [] msg mt),
      db\<lparr>reads := Suc (reads db)\<rparr>)"
  using assms by (simp add: show_tables_def get_table_names_ok split: option.splits)

lemma show_tables_unreadable:
  assumes "read_error env (reads db) = Some m"
  shows "show_tables env eng L table_name msg mt db =
     (Inl (SQLAlchemyError m),
      db\<lparr>reads := Suc (reads db), errors := errors db @ [AtCatalogue]\<rparr>)"
  using assms by (simp add: show_tables_def get_table_names_raises)

lemma get_table_info_cases:
  assumes "get_table_info env t db = (r, d)"
  shows "events d = events db \<and> committed d = committed db \<and> working d = working db \<and>
         closed d = closed db"
  using assms
  by (auto simp: get_table_info_def reflect_def catalogue_read_def
      split: option.splits prod.splits sum.splits)

lemma show_tables_events:
  "new_events db (snd (show_tables env eng L table_name msg mt db)) = [] \<or>
   (\<exists>t ok. table_name = Some t \<and> t \<in> set (table_names env) \<and>
      new_events db (snd (show_tables env eng L table_name msg mt db)) =
        [EvExecute (lit ''SELECT * FROM '' @ [34] @ t @ [34]) [] ok])"
proof -
  obtain r1 d1 where g: "get_table_names env db = (r1, d1)"
    by (cases "get_table_names env db")
  note gc = get_table_names_cases[OF g]
  show ?thesis
  proof (cases r1)
    case (Inl e)
    with g gc show ?thesis by (simp add: show_tables_def new_events_def)
  next
    case (Inr ts)
    with gc have ts: "ts = table_names env" by auto
    show ?thesis
    proof (cases table_name)
      case None
      with g Inr gc show ?thesis by (simp add: show_tables_def new_events_def)
    next
      case (Some t)
      show ?thesis
      proof (cases "t \<noteq> [] \<and> t \<in> set ts")
        case False
        with g Inr gc Some show ?thesis by (auto simp: show_tables_def new_events_def)
      next
        case True
        obtain r2 d2 where q: "get_table_data eng L t d1 = (r2, d2)"
          by (cases "get_table_data eng L t d1")
        from q have q': "execute_custom_query eng L (lit ''SELECT * FROM '' @ [34] @ t @ [34]) d1 =
            (r2, d2)" by (simp add: get_table_data_def)
        from execute_custom_query_cases[OF q'] gc
        have ev: "\<exists>ok. events d2 = events db @ [EvExecute (lit ''SELECT * FROM '' @ [34] @ t @ [34]) [] ok]"
          by auto
        obtain r3 d3 where i: "get_table_info env t d2 = (r3, d3)"
          by (cases "get_table_info env t d2")
        note ic = get_table_info_cases[OF i]
        have s: "snd (show_tables env eng L table_name msg mt db) = d2 \<or>
                 snd (show_tables env eng L table_name msg mt db) = d3"
          using g Inr Some True q i
          by (auto simp: show_tables_def split: sum.splits prod.splits)
        from s ev ic have "\<exists>ok. new_events db (snd (show_tables env eng L table_name msg mt db)) =
            [EvExecute (lit ''SELECT * FROM '' @ [34] @ t @ [34]) [] ok]"
          by (auto simp: new_events_def)
        with Some True ts show ?thesis by auto
      qed
    qed
  qed
qed

text \<open>
  C10. In the handler of \<open>/view\<close>, \<open>get_table_data\<close> runs only for a table name
  that is in the list \<open>get_table_names\<close> returns: when the session shows any event,
  the requested name is such a member and the one event is the \<open>SELECT\<close> on that
  table. For any other name, \<open>None\<close> included, no statement is passed to the database,
  and when \<open>get_table_names()\<close> returns, the page has empty \<open>columns\<close>, \<open>data\<close>,
  \<open>primary_keys\<close> and \<open>required_columns\<close>.
\<close>

theorem show_tables_guard:
  "(new_events db (snd (show_tables env eng L table_name msg mt db)) \<noteq> [] \<longrightarrow>
      (\<exists>t ok. table_name = Some t \<and> t \<in> set (table_names env) \<and>
         new_events db (snd (show_tables env eng L table_name msg mt db)) =
           [EvExecute (lit ''SELECT * FROM '' @ [34] @ t @ [34]) [] ok])) \<and>
   ((\<forall>t. table_name = Some t \<longrightarrow> t \<notin> set (table_names env)) \<longrightarrow>
      new_events db (snd (show_tables env eng L table_name msg mt db)) = [] \<and>
      (read_error env (reads db) = None \<longrightarrow>
         show_tables env eng L table_name msg mt db =
           (Inr (view_template (table_names env) table_name [] [] [] [] msg mt),
            db\<lparr>reads := Suc (reads db)\<rparr>)))"
  using show_tables_events[of db env eng L table_name msg mt]
        show_tables_unlisted[of env db table_name eng L msg mt]
  by blast

theorem show_tables_guard_witness:
  "(\<exists>t ok. Some (lit ''clients'') = Some t \<and> t \<in> set (table_names sample_env) \<and>
      new_events (SessionLocal 0)
        (snd (show_tables sample_env accepting_engine ascii_lib (Some (lit ''clients'')) None None
               (SessionLocal 0))) =
        [EvExecute (lit ''SELECT * FROM '' @ [34] @ t @ [34]) [] ok]) \<and>
   show_tables sample_env accepting_engine ascii_lib (Some (lit ''users'')) None None
     (SessionLocal 0) =
     (Inr (view_template (table_names sample_env) (Some (lit ''users'')) [] [] [] [] None None),
      (SessionLocal 0)\<lparr>reads := 1\<rparr>) \<and>
   show_tables sample_env accepting_engine ascii_lib None None None (SessionLocal 0) =
     (Inr (view_template (table_names sample_env) None [] [] [] [] None None),
      (SessionLocal 0)\<lparr>reads := 1\<rparr>) \<and>
   new_events (SessionLocal 0)
     (snd (show_tables down_env accepting_engine ascii_lib (Some (lit ''users'')) None None
            (SessionLocal 0))) = []"
proof -
  have a: "new_events (SessionLocal 0)
        (snd (show_tables sample_env accepting_engine ascii_lib (Some (lit ''clients'')) None None
               (SessionLocal 0))) \<noteq> []"
    by (simp add: show_tables_def get_table_data_def execute_custom_query_def db_execute_def
        result_keys_def result_fetchall_def
        new_events_def SessionLocal_def accepting_engine_def sample_env_def get_table_names_def
        catalogue_read_def reflect_def get_table_info_def lit_def)
  have b: "\<forall>t. Some (lit ''users'') = Some t \<longrightarrow> t \<notin> set (table_names sample_env)"
    by (simp add: sample_env_def lit_def)
  have b': "\<forall>t. Some (lit ''users'') = Some t \<longrightarrow> t \<notin> set (table_names down_env)"
    by (simp add: down_env_def sample_env_def lit_def)
  have c: "read_error sample_env (reads (SessionLocal (0::nat))) = None"
    by (rule sample_env_reads)
  have r: "(SessionLocal (0::nat))\<lparr>reads := Suc (reads (SessionLocal 0))\<rparr> =
           (SessionLocal 0)\<lparr>reads := 1\<rparr>" by (simp add: SessionLocal_def)
  note t1 = show_tables_guard[of "SessionLocal 0" sample_env accepting_engine ascii_lib
            "Some (lit ''clients'')" None None]
  note t2 = show_tables_guard[of "SessionLocal 0" sample_env accepting_engine ascii_lib
            "Some (lit ''users'')" None None]
  note t3 = show_tables_guard[of "SessionLocal 0" sample_env accepting_engine ascii_lib
            None None None]
  note t4 = show_tables_guard[of "SessionLocal 0" down_env accepting_engine ascii_lib
            "Some (lit ''users'')" None None]
  from t1 a have 1: "\<exists>t ok. Some (lit ''clients'') = Some t \<and> t \<in> set (table_names sample_env) \<and>
      new_events (SessionLocal 0)
        (snd (show_tables sample_env accepting_engine ascii_lib (Some (lit ''clients'')) None None
               (SessionLocal 0))) =
        [EvExecute (lit ''SELECT * FROM '' @ [34] @ t @ [34]) [] ok]" by blast
  from t2 b c r have 2: "show_tables sample_env accepting_engine ascii_lib (Some (lit ''users'')) None None
     (SessionLocal 0) =
     (Inr (view_template (table_names sample_env) (Some (lit ''users'')) [] [] [] [] None None),
      (SessionLocal 0)\<lparr>reads := 1\<rparr>)" by simp
  from t3 c r have 3: "show_tables sample_env accepting_engine ascii_lib None None None (SessionLocal 0) =
     (Inr (view_template (table_names sample_env) None [] [] [] [] None None),
      (SessionLocal 0)\<lparr>reads := 1\<rparr>)" by simp
  from t4 b' have 4: "new_events (SessionLocal 0)
     (snd (show_tables down_env accepting_engine ascii_lib (Some (lit ''users'')) None None
            (SessionLocal 0))) = []" by simp
  from 1 2 3 4 show ?thesis by simp
qed

text \<open>
  Without the condition on \<open>get_table_names()\<close> the second part fails: the handler has
  no \<open>try\<close>, and with the database unreachable the request for no table gets no page.
\<close>

theorem show_tables_guard_counterexample:
  "fst (show_tables down_env accepting_engine ascii_lib None None None (SessionLocal 0)) =
     Inl (SQLAlchemyError (lit ''connection refused''))"
  using show_tables_unreadable[where env = down_env and db = "SessionLocal 0" and
      eng = accepting_engine and L = ascii_lib and table_name = None and msg = None and
      mt = None, OF down_env_reads]
  by simp

section \<open>Database errors in the handlers\<close>





text \<open>
  The start of the three \<open>try\<close> blocks: \<open>del form_dict["table_name"]\<close> and the test
  \<open>table_name not in get_table_names()\<close>.
\<close>

lemma raised_outcome:
  assumes "r = Inl (SQLAlchemyError m)" and "events d = events db"
    and "errors d = errors db @ [AtCatalogue]" and "committed d = committed db"
  shows "(\<exists>e evs errs. r = Inl (SQLAlchemyError e) \<and> errs \<noteq> [] \<and>
            events d = events db @ evs \<and> errors d = errors db @ errs \<and>
            committed d = committed db) \<or>
         ((\<forall>e. r \<noteq> Inl (SQLAlchemyError e)) \<and> errors d = errors db)"
  using assms by auto





























end
